theory Spec2Isabelle
  imports Main "HOL-Library.Word"
begin

unbundle bit_operations_syntax

section \<open>Machine types\<close>

type_synonym u8 = "8 word"
type_synonym u16 = "16 word"
type_synonym u32 = "32 word"
type_synonym u64 = "64 word"

text \<open>
  A run of a piece of the encoder either does not return (\<open>None\<close>), leaves defined
  behaviour (\<open>Some (Inl f)\<close>: a read or write outside an array, a division by zero, a
  call through a null function pointer, a shift by a negative count or by the width of
  \<open>int\<close> or more, the end of a function that is declared to return a value reached
  without a \<open>return\<close>), or returns a value (\<open>Some (Inr v)\<close>).
\<close>

datatype fault = OutOfBounds | DivideByZero | NullCall | BadShift | NoReturnValue

type_synonym 'a run = "(fault + 'a) option"

definition fbind :: "fault + 'a \<Rightarrow> ('a \<Rightarrow> fault + 'b) \<Rightarrow> fault + 'b" where
  "fbind m k = (case m of Inl f \<Rightarrow> Inl f | Inr v \<Rightarrow> k v)"

definition rbind :: "'a run \<Rightarrow> ('a \<Rightarrow> 'b run) \<Rightarrow> 'b run" where
  "rbind m k = (case m of None \<Rightarrow> None | Some (Inl f) \<Rightarrow> Some (Inl f) | Some (Inr v) \<Rightarrow> k v)"

section \<open>Decoder: \<open>ImageRGBAReader\<close> (src/decoder/ImageRGBAReader.hpp)\<close>

text \<open>
  \<open>u8 YUV[3]\<close> and the three bytes a filter produces are triples. The output image
  \<open>_rgba\<close> is byte memory addressed by offset; the pixel pointer \<open>p\<close> is an offset
  into it.
\<close>

type_synonym yuv = "u8 \<times> u8 \<times> u8"
type_synonym rgb = "u8 \<times> u8 \<times> u8"
type_synonym image = "nat \<Rightarrow> u8"

text \<open>
  \<open>RGBAFilterFuncs\<close> (Filters.hpp, not among the sources) holds the two variants of
  one spatial filter. Each is called as \<open>sf.safe(p, FPT, x, y, _xsize)\<close> and returns
  a pointer to the three predicted bytes; here it maps the image memory, the pixel
  offset and the coordinates to the prediction.
\<close>

record RGBAFilterFuncs =
  safe :: "image \<Rightarrow> nat \<Rightarrow> u16 \<Rightarrow> u16 \<Rightarrow> u16 \<Rightarrow> rgb"
  unsafe :: "image \<Rightarrow> nat \<Rightarrow> u16 \<Rightarrow> u16 \<Rightarrow> u16 \<Rightarrow> rgb"

text \<open>
  \<open>struct FilterSelection\<close>: \<open>cf\<close> is a function pointer, \<open>None\<close> the null pointer.
\<close>

record FilterSelection =
  cf :: "(yuv \<Rightarrow> rgb) option"
  sf :: RGBAFilterFuncs

definition ready :: "FilterSelection \<Rightarrow> bool" where
  "ready f = (cf f \<noteq> None)"

text \<open>
  The bit reader, the entropy decoders, the three \<open>MonoReader\<close>s, \<open>RGBChaos\<close> and the
  table \<open>YUV2RGB_FILTERS\<close> are declared in headers that are not among the sources. Their
  joint state is a value of type \<open>'s\<close>, and every call the reader makes on them is a
  field of \<open>decoders\<close>: the call's arguments and the state go in, the result and the
  new state come out.
\<close>

record 's decoders =
  chaos_get :: "u16 \<Rightarrow> 's \<Rightarrow> u8 \<times> u8 \<times> u8"
  chaos_store :: "u16 \<Rightarrow> yuv \<Rightarrow> 's \<Rightarrow> 's"
  y_decoder_next :: "u8 \<Rightarrow> 's \<Rightarrow> u16 \<times> 's"
  u_decoder_next :: "u8 \<Rightarrow> 's \<Rightarrow> u16 \<times> 's"
  v_decoder_next :: "u8 \<Rightarrow> 's \<Rightarrow> u16 \<times> 's"
  cf_decoder_read :: "u16 \<Rightarrow> 's \<Rightarrow> u8 \<times> 's"
  sf_decoder_read :: "u16 \<Rightarrow> 's \<Rightarrow> u8 \<times> 's"
  a_decoder_read :: "u16 \<Rightarrow> 's \<Rightarrow> u8 \<times> 's"
  a_decoder_read_unsafe :: "u16 \<Rightarrow> 's \<Rightarrow> u8 \<times> 's"
  YUV2RGB_FILTERS :: "u8 \<Rightarrow> (yuv \<Rightarrow> rgb) option"

text \<open>The members of \<open>ImageRGBAReader\<close> that \<open>readFilter\<close>, \<open>readSafe\<close> and
  \<open>readUnsafe\<close> use.\<close>

record 's ImageRGBAReader =
  io :: 's
  r_rgba :: image
  r_xsize :: u16
  r_tile_bits_x :: u16
  r_sf :: "u8 \<Rightarrow> RGBAFilterFuncs"
  r_filters :: "u16 \<Rightarrow> FilterSelection"

text \<open>\<open>readFilter\<close>, lines 119-129. The returned pointer is the selection itself.\<close>

definition readFilter ::
  "'s decoders \<Rightarrow> u16 \<Rightarrow> u16 \<Rightarrow> 's ImageRGBAReader \<Rightarrow> FilterSelection \<times> 's ImageRGBAReader" where
  "readFilter D x y R =
     (let tx = drop_bit (unat (r_tile_bits_x R)) x;
          filter = r_filters R tx
      in if \<not> ready filter then
           let (ci, s1) = cf_decoder_read D tx (io R);
               filter1 = filter\<lparr>cf := YUV2RGB_FILTERS D ci\<rparr>;
               (si, s2) = sf_decoder_read D tx s1;
               filter2 = filter1\<lparr>sf := r_sf R si\<rparr>
           in (filter2, R\<lparr>io := s2, r_filters := (r_filters R)(tx := filter2)\<rparr>)
         else (filter, R))"

text \<open>
  \<open>readSafe\<close>, lines 131-165. The branch for an LZ escape code holds the comment
  \<open>// TODO\<close> and no statement.
\<close>

definition readSafe ::
  "'s decoders \<Rightarrow> u16 \<Rightarrow> u16 \<Rightarrow> nat \<Rightarrow> 's ImageRGBAReader \<Rightarrow> fault + 's ImageRGBAReader" where
  "readSafe D x y p R =
     (let (cy, cu, cv) = chaos_get D x (io R);
          (pixel_code, s1) = y_decoder_next D cy (io R)
      in if pixel_code \<ge> 256 then Inr (R\<lparr>io := s1\<rparr>)
         else
           let (u, s2) = u_decoder_next D cu s1;
               (v, s3) = v_decoder_next D cv s2;
               YUV = (ucast pixel_code, ucast u, ucast v);
               (filter, R1) = readFilter D x y (R\<lparr>io := s3\<rparr>)
           in case cf filter of
                None \<Rightarrow> Inl NullCall
              | Some cff \<Rightarrow>
                  let (r, g, b) = cff YUV;
                      m1 = (r_rgba R1)(p := r, p + 1 := g, p + 2 := b);
                      (pred0, pred1, pred2) = safe (sf filter) m1 p x y (r_xsize R1);
                      m2 = m1(p := r + pred0, p + 1 := g + pred1, p + 2 := b + pred2);
                      (a, s4) = a_decoder_read D x (io R1);
                      m3 = m2(p + 3 := NOT a);
                      s5 = chaos_store D x YUV s4
                  in Inr (R1\<lparr>io := s5, r_rgba := m3\<rparr>))"

text \<open>\<open>readUnsafe\<close>, lines 167-202.\<close>

definition readUnsafe ::
  "'s decoders \<Rightarrow> u16 \<Rightarrow> u16 \<Rightarrow> nat \<Rightarrow> 's ImageRGBAReader \<Rightarrow> fault + 's ImageRGBAReader" where
  "readUnsafe D x y p R =
     (let (cy, cu, cv) = chaos_get D x (io R);
          (pixel_code, s1) = y_decoder_next D cy (io R)
      in if pixel_code \<ge> 256 then Inr (R\<lparr>io := s1\<rparr>)
         else
           let (u, s2) = u_decoder_next D cu s1;
               (v, s3) = v_decoder_next D cv s2;
               YUV = (ucast pixel_code, ucast u, ucast v);
               (filter, R1) = readFilter D x y (R\<lparr>io := s3\<rparr>)
           in case cf filter of
                None \<Rightarrow> Inl NullCall
              | Some cff \<Rightarrow>
                  let (r, g, b) = cff YUV;
                      m1 = (r_rgba R1)(p := r, p + 1 := g, p + 2 := b);
                      (pred0, pred1, pred2) = unsafe (sf filter) m1 p x y (r_xsize R1);
                      m2 = m1(p := r + pred0, p + 1 := g + pred1, p + 2 := b + pred2);
                      (a, s4) = a_decoder_read_unsafe D x (io R1);
                      m3 = m2(p + 3 := NOT a);
                      s5 = chaos_store D x YUV s4
                  in Inr (R1\<lparr>io := s5, r_rgba := m3\<rparr>))"

subsection \<open>Observing the order of the reads\<close>

text \<open>
  To state in which order the reader calls its decoders, \<open>traced D\<close> runs the calls of
  \<open>D\<close> on the first component of the state and appends one event per call to the
  second.
\<close>

datatype event =
    Read_Y u8 | Read_U u8 | Read_V u8
  | Read_CF u16 | Read_SF u16
  | Read_A u16 | Read_A_unsafe u16
  | Chaos_store u16 yuv

definition logged :: "event \<Rightarrow> ('s \<Rightarrow> 'a \<times> 's) \<Rightarrow> 's \<times> event list \<Rightarrow> 'a \<times> 's \<times> event list" where
  "logged e f = (\<lambda>(s, l). let (v, s') = f s in (v, s', l @ [e]))"

definition traced :: "'s decoders \<Rightarrow> ('s \<times> event list) decoders" where
  "traced D =
     \<lparr> chaos_get = (\<lambda>x (s, l). chaos_get D x s),
       chaos_store = (\<lambda>x v (s, l). (chaos_store D x v s, l @ [Chaos_store x v])),
       y_decoder_next = (\<lambda>c. logged (Read_Y c) (y_decoder_next D c)),
       u_decoder_next = (\<lambda>c. logged (Read_U c) (u_decoder_next D c)),
       v_decoder_next = (\<lambda>c. logged (Read_V c) (v_decoder_next D c)),
       cf_decoder_read = (\<lambda>tx. logged (Read_CF tx) (cf_decoder_read D tx)),
       sf_decoder_read = (\<lambda>tx. logged (Read_SF tx) (sf_decoder_read D tx)),
       a_decoder_read = (\<lambda>x. logged (Read_A x) (a_decoder_read D x)),
       a_decoder_read_unsafe = (\<lambda>x. logged (Read_A_unsafe x) (a_decoder_read_unsafe D x)),
       YUV2RGB_FILTERS = YUV2RGB_FILTERS D \<rparr>"

section \<open>Encoder: \<open>MonoWriter\<close> (src/encoder/MonoWriter.cpp)\<close>

text \<open>
  \<open>MonoWriter.hpp\<close> is not among the sources. \<open>ImageRGBAWriter.hpp\<close> (lines 76-80)
  declares \<open>MAX_PASSES\<close>, \<open>MASK_TILE\<close> and \<open>TODO_TILE\<close> for the RGBA writer with the
  values below, and \<open>MonoWriter.cpp\<close> uses the three names in the same way.

  Modelled from the spec: \<open>MonoWriter::MAX_PASSES\<close>, which the spec gives as
  "up to MAX_PASSES=4".
\<close>

definition MAX_PASSES :: nat where "MAX_PASSES = 4"
definition MASK_TILE :: u8 where "MASK_TILE = 255"
definition TODO_TILE :: u8 where "TODO_TILE = 0"

text \<open>
  \<open>MonoWriter::Parameters\<close>, with the fields the functions below read. \<open>data\<close> is the
  plane, row-major; \<open>mask_fn\<close> is the delegate \<open>mask(x, y)\<close>.
\<close>

record Parameters =
  data :: "u8 list"
  size_x :: u16
  size_y :: u16
  num_syms :: u16
  mask_fn :: "u16 \<Rightarrow> u16 \<Rightarrow> bool"
  min_bits :: int
  max_bits :: int

text \<open>
  A monochrome filter is called as \<open>_filters[f](data, x, y, size_x)\<close> with a pointer
  into the plane; here it gets the plane and the offset of that pointer.
\<close>

type_synonym MonoFilterFunc = "u8 list \<Rightarrow> nat \<Rightarrow> u16 \<Rightarrow> u16 \<Rightarrow> u16 \<Rightarrow> u8"

text \<open>
  The bit writer (\<open>ImageWriter\<close>, not among the sources) is the list of the fields
  written so far: \<open>writeBits(code, len)\<close> and \<open>writeBit(code)\<close> each append one.
\<close>

datatype written = Bits u32 int | OneBit u32

type_synonym writer = "written list"

definition writeBits :: "u32 \<Rightarrow> int \<Rightarrow> writer \<Rightarrow> writer" where
  "writeBits code len wr = wr @ [Bits code len]"

definition writeBit :: "u32 \<Rightarrow> writer \<Rightarrow> writer" where
  "writeBit code wr = wr @ [OneBit code]"

text \<open>
  What \<open>MonoWriter.cpp\<close> uses and the sources do not hold: the tables \<open>CHAOS_MAPS\<close>
  and \<open>RESIDUAL_SCORE\<close>, the constants \<open>MAX_CHAOS_LEVELS\<close>, \<open>RECURSIVE_THRESH\<close> and
  \<open>MF_COUNT\<close>, \<open>BSR32\<close>, the knob \<open>mono_revisitCount\<close>, the class
  \<open>EntropyEstimator\<close> (state \<open>'h\<close>; \<open>ee_new\<close> is a default-constructed one,
  \<open>ee_init\<close> one after \<open>init()\<close>) and the class \<open>EntropyEncoder\<close> (state \<open>'e\<close>).
\<close>

record ('h, 'e) mono_env =
  CHAOS_MAPS :: "nat \<Rightarrow> nat \<Rightarrow> u8"
  RESIDUAL_SCORE :: "u8 \<Rightarrow> u8"
  MAX_CHAOS_LEVELS :: nat
  RECURSIVE_THRESH :: int
  MF_COUNT :: int
  BSR32 :: "u32 \<Rightarrow> u32"
  mono_revisitCount :: int
  ee_new :: 'h
  ee_init :: 'h
  ee_addSingle :: "u8 \<Rightarrow> 'h \<Rightarrow> 'h"
  ee_subtract :: "u8 list \<Rightarrow> 'h \<Rightarrow> 'h"
  ee_entropy :: "'h \<Rightarrow> u8 list \<Rightarrow> int"
  ee_entropyOverall :: "'h \<Rightarrow> u32"
  enc_add :: "u8 \<Rightarrow> 'e \<Rightarrow> 'e"
  enc_finalize :: "'e \<Rightarrow> 'e"
  enc_writeTables :: "'e \<Rightarrow> writer \<Rightarrow> writer"

text \<open>
  The members of \<open>MonoWriter\<close>. \<open>filter_encoder\<close> is the owned child engine
  (\<open>None\<close> is the null pointer); its type is the parameter \<open>'c\<close>. The workspace
  \<open>_chaos\<close> is cleared by each function that uses it and is local to the scan below.
\<close>

record ('c, 'e) MonoWriter =
  params :: Parameters
  tile_bits_x :: u16
  tile_bits_y :: u16
  tile_size_x :: u16
  tile_size_y :: u16
  tiles_x :: u16
  tiles_y :: u16
  tiles_count :: int
  tiles :: "u8 list"
  tile_row_filters :: "u8 list"
  residuals :: "u8 list"
  filters :: "nat \<Rightarrow> MonoFilterFunc"
  filter_indices :: "nat \<Rightarrow> int"
  sympal :: "nat \<Rightarrow> u8"
  normal_filter_count :: int
  sympal_filter_count :: int
  filter_count :: int
  row_filter_entropy :: u32
  filter_encoder :: "'c option"
  chaos_levels :: int
  chaos_entropy :: u32
  encoder :: "nat \<Rightarrow> 'e"

subsection \<open>The chaos scan of \<open>designChaos\<close> and \<open>initializeEncoders\<close>\<close>

text \<open>
  Modelled from the spec: \<open>MonoWriter::getTile\<close>, defined in \<open>MonoWriter.hpp\<close>. The
  spec's tile grid has edge \<open>2^B\<close> and stores one filter index per tile.
\<close>

definition getTile :: "('c, 'e) MonoWriter \<Rightarrow> nat \<Rightarrow> nat \<Rightarrow> u8" where
  "getTile w x y =
     tiles w ! (x div 2 ^ unat (tile_bits_x w) + (y div 2 ^ unat (tile_bits_y w)) * unat (tiles_x w))"

text \<open>
  The body of the column loop, lines 768-792 of \<open>designChaos\<close> and, word for word,
  lines 875-899 of \<open>initializeEncoders\<close>. The state is the workspace \<open>_chaos\<close>
  (\<open>last = _chaos + 1\<close>, so \<open>last[-1]\<close> is element 0, \<open>last[0]\<close> element 1 and
  \<open>last[x]\<close> element \<open>x + 1\<close>), the offset of the pointer \<open>residuals\<close>, and what the
  two functions accumulate per bin: \<open>add\<close> is \<open>ee[chaos].addSingle(residual_sym)\<close> in
  the first and \<open>_encoder[chaos].add(residual_sym)\<close> in the second. \<open>last\<close> is set at
  the start of a row and not advanced in the column loop.
\<close>

definition chaos_element ::
  "('h, 'e) mono_env \<Rightarrow> ('c, 'e) MonoWriter \<Rightarrow> (nat \<Rightarrow> u8) \<Rightarrow> (nat \<Rightarrow> u8 \<Rightarrow> 'a \<Rightarrow> 'a) \<Rightarrow> nat \<Rightarrow> nat
     \<Rightarrow> u8 list \<times> nat \<times> 'a \<Rightarrow> u8 list \<times> nat \<times> 'a" where
  "chaos_element E w CHAOS add y x = (\<lambda>(ch, r, acc).
     let f = getTile w x y in
     if f = MASK_TILE \<or> mask_fn (params w) (of_nat x) (of_nat y) then (ch[x + 1 := 0], r + 1, acc)
     else if normal_filter_count w \<le> uint f then (ch[x + 1 := 0], r + 1, acc)
     else
       let chaos = CHAOS (unat (RESIDUAL_SCORE E (ch ! 0)) + unat (RESIDUAL_SCORE E (ch ! 1)));
           residual_sym = residuals w ! r
       in (ch[x + 1 := residual_sym], r + 1, add (unat chaos) residual_sym acc))"

text \<open>One row (lines 762-793): \<open>last[-1] = 0\<close>, then every column.\<close>

definition chaos_row ::
  "('h, 'e) mono_env \<Rightarrow> ('c, 'e) MonoWriter \<Rightarrow> (nat \<Rightarrow> u8) \<Rightarrow> (nat \<Rightarrow> u8 \<Rightarrow> 'a \<Rightarrow> 'a) \<Rightarrow> nat
     \<Rightarrow> u8 list \<times> nat \<times> 'a \<Rightarrow> u8 list \<times> nat \<times> 'a" where
  "chaos_row E w CHAOS add y = (\<lambda>(ch, r, acc).
     fold (chaos_element E w CHAOS add y) [0..<unat (size_x (params w))] (ch[0 := 0], r, acc))"

text \<open>The whole scan (lines 756-794): \<open>CAT_CLR(_chaos, chaos_size)\<close>, then every row.\<close>

definition chaos_scan ::
  "('h, 'e) mono_env \<Rightarrow> ('c, 'e) MonoWriter \<Rightarrow> (nat \<Rightarrow> u8) \<Rightarrow> (nat \<Rightarrow> u8 \<Rightarrow> 'a \<Rightarrow> 'a) \<Rightarrow> 'a \<Rightarrow> 'a" where
  "chaos_scan E w CHAOS add acc =
     snd (snd (fold (chaos_row E w CHAOS add) [0..<unat (size_y (params w))]
       (replicate (1 + unat (size_x (params w))) 0, 0, acc)))"


definition enc_add_bin :: "('h, 'e) mono_env \<Rightarrow> nat \<Rightarrow> u8 \<Rightarrow> (nat \<Rightarrow> 'e) \<Rightarrow> (nat \<Rightarrow> 'e)" where
  "enc_add_bin E chaos residual_sym en = en(chaos := enc_add E residual_sym (en chaos))"



text \<open>\<open>initializeEncoders\<close>, lines 858-907.\<close>

definition initializeEncoders :: "('h, 'e) mono_env \<Rightarrow> ('c, 'e) MonoWriter \<Rightarrow> ('c, 'e) MonoWriter" where
  "initializeEncoders E w =
     (let en = chaos_scan E w (CHAOS_MAPS E (nat (chaos_levels w - 1))) (enc_add_bin E) (encoder w)
      in w\<lparr>encoder := (\<lambda>ii. if int ii < chaos_levels w then enc_finalize E (en ii) else en ii)\<rparr>)"

text \<open>
  Two observers of the scan, used to state what it computes: the list of (bin, symbol)
  pairs in scan order, and the entropy the round for \<open>levels\<close> sums when every entry it
  reads starts from \<open>init()\<close>.
\<close>

definition trace_bin :: "nat \<Rightarrow> u8 \<Rightarrow> (nat \<times> u8) list \<Rightarrow> (nat \<times> u8) list" where
  "trace_bin chaos residual_sym l = l @ [(chaos, residual_sym)]"



subsection \<open>\<open>writeTables\<close> and \<open>writeFilter\<close>\<close>

text \<open>The braced blocks of \<open>writeTables\<close> (lines 909-975), one definition each.\<close>

definition writeTables_tile_size :: "('h, 'e) mono_env \<Rightarrow> ('c, 'e) MonoWriter \<Rightarrow> writer \<Rightarrow> writer" where
  "writeTables_tile_size E w wr =
     (let range = (word_of_int (max_bits (params w) - min_bits (params w)) :: u32) in
      if range > 0 then
        let bits_value = (ucast (tile_bits_x w) - word_of_int (max_bits (params w)) :: u32);
            bits_bc = BSR32 E range + 1
        in writeBits bits_value (uint bits_bc) wr
      else wr)"

definition writeTables_filters :: "('c, 'e) MonoWriter \<Rightarrow> writer \<Rightarrow> writer" where
  "writeTables_filters w wr =
     fold (\<lambda>f. writeBits (word_of_int (filter_indices w f)) 7) [0..<nat (normal_filter_count w)]
       (writeBits (word_of_int (normal_filter_count w - 1)) 5 wr)"

definition writeTables_sympal :: "('c, 'e) MonoWriter \<Rightarrow> writer \<Rightarrow> writer" where
  "writeTables_sympal w wr =
     fold (\<lambda>f. writeBits (ucast (sympal w f)) 8) [0..<nat (sympal_filter_count w)]
       (writeBits (word_of_int (sympal_filter_count w - 1)) 4 wr)"

text \<open>Lines 945-950: \<open>writer.writeBits(_chaos_levels - 1, 4)\<close>.\<close>

definition writeTables_chaos_levels :: "('c, 'e) MonoWriter \<Rightarrow> writer \<Rightarrow> writer" where
  "writeTables_chaos_levels w wr = writeBits (word_of_int (chaos_levels w - 1)) 4 wr"

definition writeTables_encoders :: "('h, 'e) mono_env \<Rightarrow> ('c, 'e) MonoWriter \<Rightarrow> writer \<Rightarrow> writer" where
  "writeTables_encoders E w wr =
     fold (\<lambda>ii. enc_writeTables E (encoder w ii)) [0..<nat (chaos_levels w)] wr"

text \<open>The recursive call on the child engine is the parameter \<open>child_writeTables\<close>.\<close>

definition writeTables_recurse :: "('c \<Rightarrow> writer \<Rightarrow> writer) \<Rightarrow> ('c, 'e) MonoWriter \<Rightarrow> writer \<Rightarrow> writer" where
  "writeTables_recurse child_writeTables w wr =
     (case filter_encoder w of
        Some child \<Rightarrow> child_writeTables child (writeBit 1 wr)
      | None \<Rightarrow> writeBit 0 wr)"

definition writeTables ::
  "('h, 'e) mono_env \<Rightarrow> ('c \<Rightarrow> writer \<Rightarrow> writer) \<Rightarrow> ('c, 'e) MonoWriter \<Rightarrow> writer
     \<Rightarrow> ('c, 'e) MonoWriter \<times> writer" where
  "writeTables E child_writeTables w wr =
     (let w1 = initializeEncoders E w
      in (w1, writeTables_recurse child_writeTables w1
                (writeTables_encoders E w1
                  (writeTables_chaos_levels w1
                    (writeTables_sympal w1
                      (writeTables_filters w1
                        (writeTables_tile_size E w1 wr)))))))"

text \<open>
  \<open>writeFilter\<close>, lines 1004-1014: it computes the tile coordinates; the rest of its
  body is six \<open>// TODO\<close> comments, and nothing is written.
\<close>

definition writeFilter :: "('c, 'e) MonoWriter \<Rightarrow> u16 \<Rightarrow> u16 \<Rightarrow> writer \<Rightarrow> writer" where
  "writeFilter w x y wr =
     (let tx = drop_bit (unat (tile_bits_y w)) x; ty = drop_bit (unat (tile_bits_y w)) y in wr)"

subsection \<open>\<open>designTiles\<close>\<close>

text \<open>
  The tile array \<open>_tiles\<close> and the plane \<open>_params.data\<close> are read through pointers
  that the function moves; a read outside the array is a fault.
\<close>

definition tile_at :: "u8 list \<Rightarrow> int \<Rightarrow> fault + u8" where
  "tile_at ts i = (if 0 \<le> i \<and> i < int (length ts) then Inr (ts ! nat i) else Inl OutOfBounds)"

definition data_at :: "u8 list \<Rightarrow> nat \<Rightarrow> fault + u8" where
  "data_at ds i = (if i < length ds then Inr (ds ! i) else Inl OutOfBounds)"

text \<open>
  Lines 440-441 and 471-472: the prediction of filter \<open>f\<close> at the element, reduced
  modulo \<open>num_syms\<close>, and the residual. The arithmetic is in \<open>int\<close>, the results are
  stored in \<open>u8\<close>.
\<close>

definition mono_residual ::
  "('c, 'e) MonoWriter \<Rightarrow> nat \<Rightarrow> nat \<Rightarrow> u16 \<Rightarrow> u16 \<Rightarrow> u8 \<Rightarrow> fault + u8" where
  "mono_residual w f d x y val =
     (let n = unat (num_syms (params w)) in
      if n = 0 then Inl DivideByZero
      else
        let prediction = (of_nat (unat (filters w f (data (params w)) d x y (size_x (params w))) mod n) :: u8);
            residual = (of_nat ((unat val + n - unat prediction) mod n) :: u8)
        in Inr residual)"

text \<open>The loop over the filters \<open>fs\<close> at one element (lines 469-476).\<close>

fun element_codes ::
  "('c, 'e) MonoWriter \<Rightarrow> nat list \<Rightarrow> nat \<Rightarrow> u16 \<Rightarrow> u16 \<Rightarrow> u8 \<Rightarrow> fault + u8 list" where
  "element_codes w [] d x y val = Inr []"
| "element_codes w (f # fs) d x y val =
     fbind (mono_residual w f d x y val) (\<lambda>residual.
     fbind (element_codes w fs d x y val) (\<lambda>rest. Inr (residual # rest)))"

text \<open>
  The two element loops of a tile (lines 430-449 and 458-484):
  \<open>while (cx-- > 0 && px < size_x)\<close> inside \<open>while (cy-- > 0 && py < size_y)\<close>. The
  counters \<open>cx\<close> and \<open>cy\<close> start at the tile size and count down; \<open>px\<close> keeps the
  value \<open>x\<close> (the source advances \<open>data\<close> only). \<open>codes\<close> holds one list of
  residuals per filter of \<open>fs\<close>: the strided rows of the buffer \<open>codes\<close>.
\<close>

fun tile_columns ::
  "('c, 'e) MonoWriter \<Rightarrow> nat list \<Rightarrow> u16 \<Rightarrow> u16 \<Rightarrow> nat \<Rightarrow> u16 \<Rightarrow> u16 \<Rightarrow> nat \<Rightarrow> u8 list list
     \<Rightarrow> fault + u8 list list" where
  "tile_columns w fs x y 0 px py d codes = Inr codes"
| "tile_columns w fs x y (Suc cx) px py d codes =
     (if px < size_x (params w) then
        (if \<not> mask_fn (params w) px py then
           fbind (data_at (data (params w)) d) (\<lambda>val.
           fbind (element_codes w fs d x y val) (\<lambda>col.
           tile_columns w fs x y cx px py (d + 1) (map2 (\<lambda>c r. c @ [r]) codes col)))
         else tile_columns w fs x y cx px py (d + 1) codes)
      else Inr codes)"

fun tile_rows ::
  "('c, 'e) MonoWriter \<Rightarrow> nat list \<Rightarrow> u16 \<Rightarrow> u16 \<Rightarrow> nat \<Rightarrow> u16 \<Rightarrow> nat \<Rightarrow> u8 list list
     \<Rightarrow> fault + u8 list list" where
  "tile_rows w fs x y 0 py row codes = Inr codes"
| "tile_rows w fs x y (Suc cy) py row codes =
     (if py < size_y (params w) then
        fbind (tile_columns w fs x y (unat (tile_size_x w)) x py row codes) (\<lambda>codes'.
        tile_rows w fs x y cy (py + 1) (row + unat (size_x (params w))) codes')
      else Inr codes)"

definition tile_codes ::
  "('c, 'e) MonoWriter \<Rightarrow> nat list \<Rightarrow> u16 \<Rightarrow> u16 \<Rightarrow> nat \<Rightarrow> fault + u8 list list" where
  "tile_codes w fs x y row0 = tile_rows w fs x y (unat (tile_size_y w)) y row0 (map (\<lambda>f. []) fs)"

text \<open>
  The locals of \<open>designTiles\<close> that live across the loops: the offsets of \<open>p\<close> (into
  \<open>_tiles\<close>) and of \<open>topleft\<close> (into the plane), \<open>revisitCount\<close>, the estimator
  \<open>ee\<close>, and the tile array as written through \<open>p\<close>.
\<close>

record 'h designTiles_locals =
  p_off :: nat
  topleft :: nat
  revisitCount :: int
  ee_local :: 'h
  tiles_mem :: "u8 list"

text \<open>What a piece of the loop body does next: go on, or \<open>return\<close> from the function.\<close>

datatype 'a step = Continue 'a | Return 'a

text \<open>Lines 416-453, the body of \<open>if (passes > 0)\<close>.\<close>

definition revisit ::
  "('h, 'e) mono_env \<Rightarrow> ('c, 'e) MonoWriter \<Rightarrow> u16 \<Rightarrow> u16 \<Rightarrow> u8 \<Rightarrow> 'h designTiles_locals
     \<Rightarrow> fault + 'h designTiles_locals step" where
  "revisit E w x y old_filter L =
     (let L1 = L\<lparr>revisitCount := revisitCount L - 1\<rparr> in
      if revisitCount L1 < 0 then Inr (Return L1)
      else if filter_indices w (unat old_filter) < MF_COUNT E then
        fbind (tile_codes w [unat old_filter] x y (topleft L1)) (\<lambda>codes.
        Inr (Continue (L1\<lparr>ee_local := ee_subtract E (concat codes) (ee_local L1)\<rparr>)))
      else Inr (Continue L1))"

text \<open>Lines 486-506: the neighbour tiles \<open>a\<close> (left), \<open>b\<close> (up), \<open>c\<close>, \<open>d\<close>.\<close>

definition neighbors ::
  "('c, 'e) MonoWriter \<Rightarrow> int \<Rightarrow> int \<Rightarrow> 'h designTiles_locals \<Rightarrow> fault + int \<times> int \<times> int \<times> int" where
  "neighbors w tx ty L =
     (let p = int (p_off L); n = uint (tiles_x w); ts = tiles_mem L; M = uint MASK_TILE in
      fbind (if ty > 0 then fbind (tile_at ts (p - n)) (\<lambda>v. Inr (uint v)) else Inr M) (\<lambda>b.
      fbind (if ty > 0 \<and> tx > 0 then fbind (tile_at ts (p - n - 1)) (\<lambda>v. Inr (uint v)) else Inr M) (\<lambda>c.
      fbind (if ty > 0 \<and> tx < n - 1 then fbind (tile_at ts (p - n + 1)) (\<lambda>v. Inr (uint v)) else Inr M) (\<lambda>d.
      fbind (if tx > 0 then fbind (tile_at ts (p - 1)) (\<lambda>v. Inr (uint v)) else Inr M) (\<lambda>a.
      Inr (a, b, c, d))))))"

definition NEIGHBOR_REWARD :: int where "NEIGHBOR_REWARD = 1"

text \<open>Lines 514-540: one round of the loop that scores filter \<open>f\<close> on its codes.\<close>

definition score_filter ::
  "('h, 'e) mono_env \<Rightarrow> 'h \<Rightarrow> int \<times> int \<times> int \<times> int \<Rightarrow> nat \<times> u8 list \<Rightarrow> int \<times> int \<Rightarrow> int \<times> int" where
  "score_filter E h nb = (\<lambda>(f, src) (lowest_entropy, bestFilterIndex).
     let (a, b, c, d) = nb;
         e0 = ee_entropy E h src;
         e1 = (if e0 = 0 then e0 - NEIGHBOR_REWARD else e0);
         e2 = (if int f = a then e1 - NEIGHBOR_REWARD else e1);
         e3 = (if int f = b then e2 - NEIGHBOR_REWARD else e2);
         e4 = (if int f = c then e3 - NEIGHBOR_REWARD else e3);
         entropy = (if int f = d then e4 - NEIGHBOR_REWARD else e4)
     in if lowest_entropy > entropy then (entropy, int f) else (lowest_entropy, bestFilterIndex))"

text \<open>Lines 410-542, the body of the loop over the tiles of a row.\<close>

definition designTiles_tile ::
  "('h, 'e) mono_env \<Rightarrow> ('c, 'e) MonoWriter \<Rightarrow> int \<Rightarrow> int \<Rightarrow> int \<Rightarrow> u16 \<Rightarrow> u16 \<Rightarrow> 'h designTiles_locals
     \<Rightarrow> fault + 'h designTiles_locals step" where
  "designTiles_tile E w passes tx ty x y L =
     fbind (tile_at (tiles_mem L) (int (p_off L))) (\<lambda>t.
     if uint t \<ge> normal_filter_count w then Inr (Continue L)
     else
       fbind (if passes > 0 then revisit E w x y t L else Inr (Continue L)) (\<lambda>r.
       case r of
         Return L1 \<Rightarrow> Inr (Return L1)
       | Continue L1 \<Rightarrow>
           fbind (tile_codes w [0..<nat (filter_count w)] x y (topleft L1)) (\<lambda>codes.
           fbind (neighbors w tx ty L1) (\<lambda>nb.
           let (lowest_entropy, bestFilterIndex) =
                 fold (score_filter E (ee_local L1) nb) (zip [0..<length codes] codes) (0x7fffffff, 0)
           in Inr (Continue (L1\<lparr>tiles_mem := (tiles_mem L1)[p_off L1 := of_int bestFilterIndex]\<rparr>))))))"

text \<open>
  Line 409:
  \<open>for (u16 x = 0; x < size_x; x += tile_size_x, ++p, topleft += tile_size_x, ++tx)\<close>.
  \<open>x\<close> is a \<open>u16\<close> and wraps; a \<open>continue\<close> in the body runs the increments too.
\<close>

partial_function (option) designTiles_columns ::
  "('h, 'e) mono_env \<Rightarrow> ('c, 'e) MonoWriter \<Rightarrow> int \<Rightarrow> u16 \<Rightarrow> int \<Rightarrow> u16 \<Rightarrow> int \<Rightarrow> 'h designTiles_locals
     \<Rightarrow> (fault + 'h designTiles_locals step) option" where
  "designTiles_columns E w passes y ty x tx L =
     (if x < size_x (params w) then
        (case designTiles_tile E w passes tx ty x y L of
           Inl f \<Rightarrow> Some (Inl f)
         | Inr (Return L') \<Rightarrow> Some (Inr (Return L'))
         | Inr (Continue L') \<Rightarrow>
             designTiles_columns E w passes y ty (x + tile_size_x w) (tx + 1)
               (L'\<lparr>p_off := p_off L' + 1, topleft := topleft L' + unat (tile_size_x w)\<rparr>))
      else Some (Inr (Continue L)))"

text \<open>Line 407: \<open>for (u16 y = 0; y < size_y; y += tile_size_y, ++ty)\<close>.\<close>

partial_function (option) designTiles_rows ::
  "('h, 'e) mono_env \<Rightarrow> ('c, 'e) MonoWriter \<Rightarrow> int \<Rightarrow> u16 \<Rightarrow> int \<Rightarrow> 'h designTiles_locals
     \<Rightarrow> (fault + 'h designTiles_locals step) option" where
  "designTiles_rows E w passes y ty L =
     (if y < size_y (params w) then
        (case designTiles_columns E w passes y ty 0 0 L of
           None \<Rightarrow> None
         | Some (Inl f) \<Rightarrow> Some (Inl f)
         | Some (Inr (Return L')) \<Rightarrow> Some (Inr (Return L'))
         | Some (Inr (Continue L')) \<Rightarrow> designTiles_rows E w passes (y + tile_size_y w) (ty + 1) L')
      else Some (Inr (Continue L)))"

text \<open>
  Lines 403-547: \<open>while (passes < MAX_PASSES)\<close>. The body sets \<open>topleft\<close> to the
  start of the plane and runs the two loops; it holds no statement that changes
  \<open>passes\<close> and none that sets \<open>p\<close> back to \<open>_tiles\<close>.
\<close>

partial_function (option) designTiles_passes ::
  "('h, 'e) mono_env \<Rightarrow> ('c, 'e) MonoWriter \<Rightarrow> int \<Rightarrow> 'h designTiles_locals
     \<Rightarrow> (fault + 'h designTiles_locals) option" where
  "designTiles_passes E w passes L =
     (if passes < int MAX_PASSES then
        (case designTiles_rows E w passes 0 0 (L\<lparr>topleft := 0\<rparr>) of
           None \<Rightarrow> None
         | Some (Inl f) \<Rightarrow> Some (Inl f)
         | Some (Inr (Return L')) \<Rightarrow> Some (Inr L')
         | Some (Inr (Continue L')) \<Rightarrow> designTiles_passes E w passes L')
      else Some (Inr L))"

declare designTiles_columns.simps [code]
declare designTiles_rows.simps [code]
declare designTiles_passes.simps [code]

text \<open>\<open>designTiles\<close>, lines 386-550.\<close>

definition designTiles :: "('h, 'e) mono_env \<Rightarrow> ('c, 'e) MonoWriter \<Rightarrow> ('c, 'e) MonoWriter run" where
  "designTiles E w =
     (case designTiles_passes E w 0
             \<lparr> p_off = 0, topleft = 0, revisitCount = mono_revisitCount E,
               ee_local = ee_init E, tiles_mem = tiles w \<rparr> of
        None \<Rightarrow> None
      | Some (Inl f) \<Rightarrow> Some (Inl f)
      | Some (Inr L) \<Rightarrow> Some (Inr (w\<lparr>tiles := tiles_mem L\<rparr>)))"

subsection \<open>\<open>process\<close>\<close>

text \<open>
  The nine functions \<open>process\<close> calls for every bit count, as runs on the engine.
  \<open>designPaletteFilters\<close> and \<open>computeResiduals\<close> name identifiers that are declared
  nowhere (\<open>data_value\<close>, \<open>old_filter\<close>), and \<open>designFilters\<close> rests on the class
  \<open>FilterScorer\<close>, which is not among the sources; \<open>process\<close> is therefore stated
  over any nine runs, and those defined here are put in where a theorem is about
  them.
\<close>

record ('c, 'e) stages =
  do_maskTiles :: "('c, 'e) MonoWriter \<Rightarrow> ('c, 'e) MonoWriter run"
  do_designPaletteFilters :: "('c, 'e) MonoWriter \<Rightarrow> ('c, 'e) MonoWriter run"
  do_designFilters :: "('c, 'e) MonoWriter \<Rightarrow> ('c, 'e) MonoWriter run"
  do_designPaletteTiles :: "('c, 'e) MonoWriter \<Rightarrow> ('c, 'e) MonoWriter run"
  do_designTiles :: "('c, 'e) MonoWriter \<Rightarrow> ('c, 'e) MonoWriter run"
  do_computeResiduals :: "('c, 'e) MonoWriter \<Rightarrow> ('c, 'e) MonoWriter run"
  do_designRowFilters :: "('c, 'e) MonoWriter \<Rightarrow> ('c, 'e) MonoWriter run"
  do_recurseCompress :: "('c, 'e) MonoWriter \<Rightarrow> ('c, 'e) MonoWriter run"
  do_designChaos :: "('c, 'e) MonoWriter \<Rightarrow> ('c, 'e) MonoWriter run"

text \<open>\<open>cleanup\<close>, lines 39-64, on the members kept here.\<close>

definition cleanup :: "('c, 'e) MonoWriter \<Rightarrow> ('c, 'e) MonoWriter" where
  "cleanup w = w\<lparr> tiles := [], tile_row_filters := [], filter_encoder := None, residuals := [] \<rparr>"

text \<open>
  Lines 829-843: the tile geometry for \<open>bits\<close> and the three allocations. A fresh
  array is shown filled with 0; the source leaves it uninitialised.
\<close>

definition init_tiles :: "int \<Rightarrow> ('c, 'e) MonoWriter \<Rightarrow> fault + ('c, 'e) MonoWriter" where
  "init_tiles bits w =
     (if bits < 0 \<or> 30 < bits then Inl BadShift
      else
        let sz = (word_of_int (2 ^ nat bits) :: u16);
            tx = (word_of_int ((uint (size_x (params w)) + uint sz - 1) div 2 ^ nat bits) :: u16);
            ty = (word_of_int ((uint (size_y (params w)) + uint sz - 1) div 2 ^ nat bits) :: u16);
            n = uint tx * uint ty
        in Inr (w\<lparr> tile_bits_x := word_of_int bits, tile_bits_y := word_of_int bits,
                   tile_size_x := sz, tile_size_y := sz,
                   tiles_x := tx, tiles_y := ty, tiles_count := n,
                   tiles := replicate (nat n) 0,
                   tile_row_filters := replicate (unat ty) 0,
                   residuals := replicate (unat (size_x (params w)) * unat (size_y (params w))) 0 \<rparr>))"

text \<open>Lines 845-854.\<close>

definition process_stages :: "('c, 'e) stages \<Rightarrow> ('c, 'e) MonoWriter \<Rightarrow> ('c, 'e) MonoWriter run" where
  "process_stages S w =
     rbind (do_maskTiles S w) (\<lambda>w.
     rbind (do_designPaletteFilters S w) (\<lambda>w.
     rbind (do_designFilters S w) (\<lambda>w.
     rbind (do_designPaletteTiles S w) (\<lambda>w.
     rbind (do_designTiles S w) (\<lambda>w.
     rbind (do_computeResiduals S w) (\<lambda>w.
     rbind (do_designRowFilters S w) (\<lambda>w.
     rbind (do_recurseCompress S w) (\<lambda>w.
     do_designChaos S w))))))))"

text \<open>Line 826: \<open>for (int bits = params.min_bits; bits <= params.max_bits; ++bits)\<close>.\<close>

fun process_bits :: "('c, 'e) stages \<Rightarrow> int list \<Rightarrow> ('c, 'e) MonoWriter \<Rightarrow> ('c, 'e) MonoWriter run" where
  "process_bits S [] w = Some (Inr w)"
| "process_bits S (bits # rest) w =
     rbind (case init_tiles bits w of Inl f \<Rightarrow> Some (Inl f) | Inr w1 \<Rightarrow> process_stages S w1)
       (process_bits S rest)"

text \<open>
  \<open>process\<close>, lines 814-856. The function is declared to return \<open>u32\<close> and its body
  has no \<open>return\<close> statement: after the loop, control reaches the closing brace, and
  the call has no value. The locals \<open>best_entropy\<close> and \<open>best_bits\<close> are initialised
  and not used again. A run gives the \<open>u32\<close> and the engine as the call leaves it.
\<close>

definition process ::
  "('c, 'e) stages \<Rightarrow> ('c, 'e) MonoWriter \<Rightarrow> Parameters \<Rightarrow> (u32 \<times> ('c, 'e) MonoWriter) run" where
  "process S w P =
     (let w0 = (cleanup w)\<lparr>params := P, filter_encoder := None\<rparr>;
          best_entropy = (0x7fffffff :: u32);
          best_bits = (word_of_int (max_bits P) :: u32)
      in rbind (process_bits S [min_bits P..max_bits P] w0) (\<lambda>w'.
           Some (Inl NoReturnValue)))"

subsection \<open>\<open>recurseCompress\<close>\<close>

text \<open>\<open>IsMasked\<close>, lines 701-703.\<close>

definition IsMasked :: "('c, 'e) MonoWriter \<Rightarrow> u16 \<Rightarrow> u16 \<Rightarrow> bool" where
  "IsMasked w x y = (tiles w ! (unat x + unat y * unat (tiles_x w)) = MASK_TILE)"

text \<open>Lines 713-720: the parameters handed to the child engine.\<close>

definition child_params :: "('c, 'e) MonoWriter \<Rightarrow> Parameters" where
  "child_params w =
     (params w)\<lparr> data := tiles w, num_syms := word_of_int (filter_count w),
                 size_x := tiles_x w, size_y := tiles_y w, mask_fn := IsMasked w \<rparr>"

text \<open>
  \<open>recurseCompress\<close>, lines 705-734. The child is an engine of the same class:
  \<open>new_MonoWriter\<close> is the object \<open>new MonoWriter\<close> gives (the constructor is in
  \<open>MonoWriter.hpp\<close>, not among the sources), \<open>child_stages\<close> are the nine functions
  as they run on the child, and the call \<open>_filter_encoder->process(params)\<close> is
  \<open>process\<close> above.
\<close>

definition recurseCompress ::
  "('c, 'e) stages \<Rightarrow> ('c, 'e) MonoWriter \<Rightarrow> ('h, 'e) mono_env \<Rightarrow> (('c, 'e) MonoWriter, 'e) MonoWriter
     \<Rightarrow> (('c, 'e) MonoWriter, 'e) MonoWriter run" where
  "recurseCompress child_stages new_MonoWriter E w =
     (if tiles_count w < RECURSIVE_THRESH E then Some (Inr w)
      else
        rbind (process child_stages new_MonoWriter (child_params w)) (\<lambda>(recurse_entropy, child).
          if recurse_entropy > row_filter_entropy w
          then Some (Inr (w\<lparr>filter_encoder := None\<rparr>))
          else Some (Inr (w\<lparr>filter_encoder := Some child\<rparr>))))"

section \<open>Encoder: \<open>LZMatchFinder\<close> (src/encoder/LZMatchFinder.hpp)\<close>

text \<open>The constants of the class, lines 47-48 and 67-74.\<close>

definition MAX_MATCH :: nat where "MAX_MATCH = 4096"
definition WIN_SIZE :: nat where "WIN_SIZE = 1024 * 1024"
definition RGBA_MIN_MATCH :: nat where "RGBA_MIN_MATCH = 2"
definition RGBA_DIST_PREFIX_COST :: int where "RGBA_DIST_PREFIX_COST = 7"
definition RGBA_LEN_PREFIX_COST :: int where "RGBA_LEN_PREFIX_COST = 5"
definition RGBA_SAVED_PIXEL_BITS :: int where "RGBA_SAVED_PIXEL_BITS = 9"
definition RGBA_HASH_BITS :: nat where "RGBA_HASH_BITS = 18"
definition RGBA_HASH_MULT :: u64 where "RGBA_HASH_MULT = 0xc6a4a7935bd1e995"

text \<open>
  \<open>HashRGBA\<close>, lines 77-79. The body is one expression statement, whose value is
  discarded, and has no \<open>return\<close>: every call reaches the end of a function declared
  \<open>u32\<close> without a value.
\<close>

definition HashRGBA :: "u32 \<Rightarrow> u32 \<Rightarrow> fault + u32" where
  "HashRGBA rgba0 rgba1 =
     (let discarded = (ucast (drop_bit (64 - RGBA_HASH_BITS)
            ((push_bit 32 (ucast rgba0 :: u64) OR ucast rgba1) * RGBA_HASH_MULT)) :: u32)
      in Inl NoReturnValue)"

text \<open>
  \<open>struct LZMatch\<close>, lines 105-115. The fields are \<open>u32\<close>, \<open>u32\<close> and \<open>u16\<close> in the
  source and natural numbers here.
\<close>

record LZMatch =
  offset :: nat
  distance :: nat
  length_lz :: nat

text \<open>
  Modelled from the spec: \<open>LZMatchFinder::scanRGBA\<close>, which the header declares and no
  source file defines, and everything down to \<open>scanRGBA\<close> below. The spec (sections 3
  and 4.5): a hash of two pixels selects a chain of prior offsets; the chain is walked
  to a bounded depth; each candidate inside the sliding window is extended one pixel at
  a time up to \<open>MAX_MATCH\<close>, and given up if the match would cross a masked pixel; a
  match of length L at distance D saves
  \<open>L * SAVED_PIXEL_BITS - (LEN_PREFIX_COST + ceil(log2 L) + DIST_PREFIX_COST + ceil(log2 D))\<close>
  bits and is accepted when that is positive and L is at least the minimum match; among
  the accepted the longest wins, then the nearest; matches are emitted in scan order.
  The mask is the collaborator's \<open>is_masked(x, y)\<close>. The hash \<open>hash_rgba\<close> is the
  spec's multiplicative hash of two pixels from 64 to 18 bits ("the multiplicative hash
  is clearly intended"), with the multiplier and the width of the header.
\<close>

definition hash_rgba :: "u32 \<Rightarrow> u32 \<Rightarrow> u32" where
  "hash_rgba rgba0 rgba1 =
     ucast (drop_bit (64 - RGBA_HASH_BITS)
       ((push_bit 32 (ucast rgba0 :: u64) OR ucast rgba1) * RGBA_HASH_MULT))"

function ceil_log2 :: "nat \<Rightarrow> nat" where
  "ceil_log2 n = (if n \<le> 1 then 0 else Suc (ceil_log2 ((n + 1) div 2)))"
  by pat_completeness auto
termination
  by (relation "measure id") auto

definition match_saving :: "nat \<Rightarrow> nat \<Rightarrow> int" where
  "match_saving L D =
     int L * RGBA_SAVED_PIXEL_BITS
       - (RGBA_LEN_PREFIX_COST + int (ceil_log2 L) + RGBA_DIST_PREFIX_COST + int (ceil_log2 D))"

record lz_image =
  rgba :: "u32 list"
  xsize :: nat
  ysize :: nat
  is_masked :: "nat \<Rightarrow> nat \<Rightarrow> bool"

definition pixels :: "lz_image \<Rightarrow> nat" where
  "pixels I = xsize I * ysize I"

definition masked_at :: "lz_image \<Rightarrow> nat \<Rightarrow> bool" where
  "masked_at I i = is_masked I (i mod xsize I) (i div xsize I)"

fun extend_match :: "lz_image \<Rightarrow> nat \<Rightarrow> nat \<Rightarrow> nat \<Rightarrow> nat \<Rightarrow> nat option" where
  "extend_match I c ii 0 len = Some len"
| "extend_match I c ii (Suc k) len =
     (if ii + len < pixels I \<and> rgba I ! (c + len) = rgba I ! (ii + len) then
        (if masked_at I (c + len) \<or> masked_at I (ii + len) then None
         else extend_match I c ii k (len + 1))
      else Some len)"

definition match_length :: "lz_image \<Rightarrow> nat \<Rightarrow> nat \<Rightarrow> nat option" where
  "match_length I c ii = extend_match I c ii MAX_MATCH 0"

fun chain_walk :: "(nat \<Rightarrow> nat option) \<Rightarrow> nat \<Rightarrow> nat option \<Rightarrow> nat list" where
  "chain_walk ch 0 c = []"
| "chain_walk ch (Suc n) None = []"
| "chain_walk ch (Suc n) (Some c) = c # chain_walk ch n (ch c)"

definition consider_candidate ::
  "lz_image \<Rightarrow> nat \<Rightarrow> nat \<Rightarrow> (nat \<times> nat) option \<Rightarrow> (nat \<times> nat) option" where
  "consider_candidate I ii c best =
     (if c < ii \<and> ii - c \<le> WIN_SIZE then
        (case match_length I c ii of
           None \<Rightarrow> best
         | Some len \<Rightarrow>
             if RGBA_MIN_MATCH \<le> len \<and> 0 < match_saving len (ii - c) then
               (case best of
                  None \<Rightarrow> Some (ii - c, len)
                | Some (bd, bl) \<Rightarrow>
                    if bl < len \<or> (bl = len \<and> ii - c < bd) then Some (ii - c, len) else best)
             else best)
      else best)"

text \<open>
  The state of the scan: the first offset no emitted match covers, the hash table
  (\<open>_table\<close>), the chain (\<open>_chain\<close>) and the match list (\<open>_matches\<close>).
\<close>

record lz_state =
  next_free :: nat
  table :: "u32 \<Rightarrow> nat option"
  chain :: "nat \<Rightarrow> nat option"
  matches :: "LZMatch list"

definition best_match :: "nat \<Rightarrow> lz_image \<Rightarrow> nat \<Rightarrow> lz_state \<Rightarrow> u32 \<Rightarrow> (nat \<times> nat) option" where
  "best_match depth I ii s h =
     (if ii < next_free s then None
      else fold (consider_candidate I ii) (chain_walk (chain s) depth (table s h)) None)"

definition scan_pixel :: "nat \<Rightarrow> lz_image \<Rightarrow> nat \<Rightarrow> lz_state \<Rightarrow> lz_state" where
  "scan_pixel depth I ii s =
     (if ii + 1 < pixels I then
        let h = hash_rgba (rgba I ! ii) (rgba I ! (ii + 1));
            s1 = s\<lparr> table := (table s)(h \<mapsto> ii), chain := (chain s)(ii := table s h) \<rparr>
        in case best_match depth I ii s h of
             None \<Rightarrow> s1
           | Some (d, len) \<Rightarrow>
               s1\<lparr> next_free := ii + len,
                   matches := matches s1 @ [\<lparr> offset = ii, distance = d, length_lz = len \<rparr>] \<rparr>
      else s)"

definition scanRGBA :: "nat \<Rightarrow> lz_image \<Rightarrow> LZMatch list" where
  "scanRGBA depth I =
     matches (fold (scan_pixel depth I) [0..<pixels I]
       \<lparr> next_free = 0, table = (\<lambda>h. None), chain = (\<lambda>i. None), matches = [] \<rparr>)"

text \<open>What the claim asks of one emitted match.\<close>

definition lz_sound :: "lz_image \<Rightarrow> LZMatch \<Rightarrow> bool" where
  "lz_sound I m =
     (1 \<le> distance m \<and> RGBA_MIN_MATCH \<le> length_lz m \<and> length_lz m \<le> MAX_MATCH
      \<and> distance m \<le> offset m \<and> distance m \<le> WIN_SIZE
      \<and> list_all (\<lambda>k. \<not> masked_at I (offset m - distance m + k)) [0..<length_lz m])"

section \<open>Concrete instances\<close>

subsection \<open>A small decoder\<close>

text \<open>
  The stream is a list of symbols; every decoder call takes the next symbol (0 once the
  list is empty). The chaos values are 0, the table of colour filters holds the
  identity at every index, and every spatial filter predicts the pixel to the left
  (\<open>p - 4\<close>) in both variants.
\<close>

definition next_sym :: "u16 list \<Rightarrow> u16 \<times> u16 list" where
  "next_sym s = (case s of [] \<Rightarrow> (0, []) | v # r \<Rightarrow> (v, r))"

definition next_byte :: "u16 list \<Rightarrow> u8 \<times> u16 list" where
  "next_byte s = (case s of [] \<Rightarrow> (0, []) | v # r \<Rightarrow> (ucast v, r))"

definition list_decoders :: "(u16 list) decoders" where
  "list_decoders =
     \<lparr> chaos_get = (\<lambda>x s. (0, 0, 0)),
       chaos_store = (\<lambda>x v s. s),
       y_decoder_next = (\<lambda>c. next_sym),
       u_decoder_next = (\<lambda>c. next_sym),
       v_decoder_next = (\<lambda>c. next_sym),
       cf_decoder_read = (\<lambda>tx. next_byte),
       sf_decoder_read = (\<lambda>tx. next_byte),
       a_decoder_read = (\<lambda>x. next_byte),
       a_decoder_read_unsafe = (\<lambda>x. next_byte),
       YUV2RGB_FILTERS = (\<lambda>i. Some (\<lambda>v. v)) \<rparr>"

definition left_filter :: RGBAFilterFuncs where
  "left_filter =
     \<lparr> safe = (\<lambda>m p x y xs. (m (p - 4), m (p - 3), m (p - 2))),
       unsafe = (\<lambda>m p x y xs. (m (p - 4), m (p - 3), m (p - 2))) \<rparr>"

definition list_reader :: "'s \<Rightarrow> 's ImageRGBAReader" where
  "list_reader s =
     \<lparr> io = s, r_rgba = (\<lambda>k. 0), r_xsize = 8, r_tile_bits_x = 2,
       r_sf = (\<lambda>i. left_filter),
       r_filters = (\<lambda>tx. \<lparr> cf = None, sf = left_filter \<rparr>) \<rparr>"

text \<open>
  A decoder whose safe and unsafe variants differ in column 0: there the safe spatial
  filter predicts 0 where the unsafe one reads the three bytes before \<open>p\<close>, and the
  unsafe alpha read gives one more than the safe one. The image memory holds 3 in every
  byte.
\<close>

definition border_filter :: RGBAFilterFuncs where
  "border_filter =
     \<lparr> safe = (\<lambda>m p x y xs. if x = 0 then (0, 0, 0) else (m (p - 4), m (p - 3), m (p - 2))),
       unsafe = (\<lambda>m p x y xs. (m (p - 4), m (p - 3), m (p - 2))) \<rparr>"

definition border_decoders :: "(u16 list) decoders" where
  "border_decoders =
     list_decoders\<lparr> a_decoder_read_unsafe :=
       (\<lambda>x s. if x = 0 then (fst (next_byte s) + 1, snd (next_byte s)) else next_byte s) \<rparr>"

definition border_reader :: "'s \<Rightarrow> 's ImageRGBAReader" where
  "border_reader s =
     \<lparr> io = s, r_rgba = (\<lambda>k. 3), r_xsize = 8, r_tile_bits_x = 2,
       r_sf = (\<lambda>i. border_filter),
       r_filters = (\<lambda>tx. \<lparr> cf = None, sf = border_filter \<rparr>) \<rparr>"

subsection \<open>A small monochrome engine\<close>

text \<open>
  An estimator and an encoder that keep the list of the symbols they were given. The
  overall entropy of a list is 8 bits for every symbol that differs from its first
  one. The score of a residual saturates at 15 and the chaos map for \<open>K\<close> levels
  saturates the sum of two scores at \<open>K - 1\<close>. The argument is \<open>MAX_CHAOS_LEVELS\<close>.
\<close>

definition uniform_entropy :: "u8 list \<Rightarrow> u32" where
  "uniform_entropy h = 8 * of_nat (length (filter (\<lambda>s. s \<noteq> hd h) h))"

definition list_env :: "nat \<Rightarrow> (u8 list, u8 list) mono_env" where
  "list_env n =
     \<lparr> CHAOS_MAPS = (\<lambda>k s. of_nat (min s k)),
       RESIDUAL_SCORE = (\<lambda>r. if r < 15 then r else 15),
       MAX_CHAOS_LEVELS = n,
       RECURSIVE_THRESH = 8,
       MF_COUNT = 32,
       BSR32 = (\<lambda>v. if v < 2 then 0 else if v < 4 then 1 else if v < 8 then 2 else 3),
       mono_revisitCount = 4096,
       ee_new = [],
       ee_init = [],
       ee_addSingle = (\<lambda>s h. h @ [s]),
       ee_subtract = (\<lambda>codes h. h),
       ee_entropy = (\<lambda>h codes. 8 * int (length (filter (\<lambda>c. c \<noteq> 0) codes))),
       ee_entropyOverall = uniform_entropy,
       enc_add = (\<lambda>s h. h @ [s]),
       enc_finalize = (\<lambda>h. h),
       enc_writeTables = (\<lambda>h. fold (\<lambda>s. writeBits (ucast s) 8) h) \<rparr>"

text \<open>
  An engine on an unmasked plane of \<open>sx\<close> by \<open>sy\<close> elements with tiles of edge
  \<open>2 ^ bits\<close>, every tile still to do, one filter (which predicts 0), the plane
  \<open>ds\<close> and the residuals \<open>rs\<close>.
\<close>

definition plane ::
  "nat \<Rightarrow> nat \<Rightarrow> nat \<Rightarrow> u8 list \<Rightarrow> u8 list \<Rightarrow> (unit, u8 list) MonoWriter" where
  "plane sx sy bits ds rs =
     \<lparr> params = \<lparr> data = ds, size_x = of_nat sx, size_y = of_nat sy, num_syms = 256,
                  mask_fn = (\<lambda>x y. False), min_bits = int bits, max_bits = int bits \<rparr>,
       tile_bits_x = of_nat bits, tile_bits_y = of_nat bits,
       tile_size_x = of_nat (2 ^ bits), tile_size_y = of_nat (2 ^ bits),
       tiles_x = of_nat ((sx + 2 ^ bits - 1) div 2 ^ bits),
       tiles_y = of_nat ((sy + 2 ^ bits - 1) div 2 ^ bits),
       tiles_count = int (((sx + 2 ^ bits - 1) div 2 ^ bits) * ((sy + 2 ^ bits - 1) div 2 ^ bits)),
       tiles = replicate (((sx + 2 ^ bits - 1) div 2 ^ bits) * ((sy + 2 ^ bits - 1) div 2 ^ bits)) TODO_TILE,
       tile_row_filters = replicate ((sy + 2 ^ bits - 1) div 2 ^ bits) 0,
       residuals = rs,
       filters = (\<lambda>f ds d x y sx. 0),
       filter_indices = (\<lambda>f. int f),
       sympal = (\<lambda>f. 0),
       normal_filter_count = 1,
       sympal_filter_count = 0,
       filter_count = 1,
       row_filter_entropy = 0,
       filter_encoder = None,
       chaos_levels = 1,
       chaos_entropy = 0,
       encoder = (\<lambda>ii. []) \<rparr>"

text \<open>
  A plane of one element, with the bit counts \<open>lo\<close> to \<open>hi\<close> to try, and an engine
  as \<open>new MonoWriter\<close> could leave it: no arrays, one filter (which predicts 0).
\<close>

definition one_element :: "int \<Rightarrow> int \<Rightarrow> Parameters" where
  "one_element lo hi =
     \<lparr> data = [5], size_x = 1, size_y = 1, num_syms = 256,
       mask_fn = (\<lambda>x y. False), min_bits = lo, max_bits = hi \<rparr>"

definition new_engine :: "('c, u8 list) MonoWriter" where
  "new_engine =
     \<lparr> params = one_element 0 0,
       tile_bits_x = 0, tile_bits_y = 0, tile_size_x = 0, tile_size_y = 0,
       tiles_x = 0, tiles_y = 0, tiles_count = 0,
       tiles = [], tile_row_filters = [], residuals = [],
       filters = (\<lambda>f ds d x y sx. 0),
       filter_indices = (\<lambda>f. int f),
       sympal = (\<lambda>f. 0),
       normal_filter_count = 1,
       sympal_filter_count = 0,
       filter_count = 1,
       row_filter_entropy = 0,
       filter_encoder = None,
       chaos_levels = 1,
       chaos_entropy = 0,
       encoder = (\<lambda>ii. []) \<rparr>"

text \<open>
  Nine runs, of which eight return at once and the fifth is the \<open>designTiles\<close> of the
  source.
\<close>

definition stub_stages :: "(unit, u8 list) stages" where
  "stub_stages =
     \<lparr> do_maskTiles = (\<lambda>w. Some (Inr w)),
       do_designPaletteFilters = (\<lambda>w. Some (Inr w)),
       do_designFilters = (\<lambda>w. Some (Inr w)),
       do_designPaletteTiles = (\<lambda>w. Some (Inr w)),
       do_designTiles = designTiles (list_env 8),
       do_computeResiduals = (\<lambda>w. Some (Inr w)),
       do_designRowFilters = (\<lambda>w. Some (Inr w)),
       do_recurseCompress = (\<lambda>w. Some (Inr w)),
       do_designChaos = (\<lambda>w. Some (Inr w)) \<rparr>"

text \<open>
  A parent engine whose plane of one element is one tile at the bit count 0, for the
  threshold \<open>RECURSIVE_THRESH = 1\<close>.
\<close>

definition one_tile :: "((unit, u8 list) MonoWriter, u8 list) MonoWriter" where
  "one_tile =
     new_engine\<lparr> tile_size_x := 1, tile_size_y := 1, tiles_x := 1, tiles_y := 1,
                 tiles_count := 1, tiles := [0], tile_row_filters := [0], residuals := [5] \<rparr>"

definition low_threshold :: "(u8 list, u8 list) mono_env" where
  "low_threshold = (list_env 8)\<lparr>RECURSIVE_THRESH := 1\<rparr>"

subsection \<open>A small image for the match finder\<close>

text \<open>Two equal rows of four pixels, nothing masked.\<close>

definition two_rows :: lz_image where
  "two_rows = \<lparr> rgba = [1, 2, 3, 4, 1, 2, 3, 4], xsize = 4, ysize = 2, is_masked = (\<lambda>x y. False) \<rparr>"

section \<open>The decoder\<close>

lemma logged_apply:
  "logged e f (s, l) = (fst (f s), snd (f s), l @ [e])"
  by (simp add: logged_def split_beta)

lemma readFilter_frame:
  "r_xsize (snd (readFilter D x y R)) = r_xsize R"
  "r_rgba (snd (readFilter D x y R)) = r_rgba R"
  by (simp_all add: readFilter_def Let_def split_beta)

lemma readFilter_selection:
  "fst (readFilter D x y R) =
     (if ready (r_filters R (drop_bit (unat (r_tile_bits_x R)) x))
      then r_filters R (drop_bit (unat (r_tile_bits_x R)) x)
      else \<lparr> cf = YUV2RGB_FILTERS D (fst (cf_decoder_read D (drop_bit (unat (r_tile_bits_x R)) x) (io R))),
             sf = r_sf R (fst (sf_decoder_read D (drop_bit (unat (r_tile_bits_x R)) x)
                    (snd (cf_decoder_read D (drop_bit (unat (r_tile_bits_x R)) x) (io R))))) \<rparr>)"
  by (simp add: readFilter_def Let_def split_beta)

text \<open>
  C8, as the code has it. At a tile column whose selection is not ready,
  \<open>readFilter\<close> reads the CF-id from the CF-map decoder first and the SF-id from the
  SF-map decoder second, and makes no other call; at a ready one it reads nothing.
\<close>

theorem readFilter_reads_CF_then_SF:
  "snd (io (snd (readFilter (traced D) x y R))) =
     (if ready (r_filters R (drop_bit (unat (r_tile_bits_x R)) x))
      then snd (io R)
      else snd (io R) @ [Read_CF (drop_bit (unat (r_tile_bits_x R)) x),
                         Read_SF (drop_bit (unat (r_tile_bits_x R)) x)])"
  by (cases "io R")
     (simp add: readFilter_def traced_def logged_apply Let_def split_beta)

text \<open>
  C8, the claim as stated (the SF-map is read first, then the CF-map) fails: on a
  stream that holds the two ids of the first tile, the first read is the CF-map's and
  the second the SF-map's.
\<close>

theorem readFilter_SF_first_counterexample:
  "snd (io (snd (readFilter (traced list_decoders) 0 0 (list_reader ([1, 2], [])))))
     = [Read_CF 0, Read_SF 0]
   \<and> snd (io (snd (readFilter (traced list_decoders) 0 0 (list_reader ([1, 2], [])))))
     \<noteq> [Read_SF 0, Read_CF 0]"
  by (simp add: readFilter_def traced_def logged_apply Let_def split_beta
      list_decoders_def list_reader_def ready_def next_byte_def)

text \<open>
  C10. Take the pixel and the decoder state at hand, and follow the reads that
  \<open>readSafe\<close> and \<open>readUnsafe\<close> share: the chaos values, the Y symbol (not an escape),
  the U and V symbols, the filter selection \<open>filter\<close> of the tile (read now or
  earlier), its colour filter \<open>cff\<close> and the bytes \<open>r\<close>, \<open>g\<close>, \<open>b\<close> that it gives. If,
  on the image memory reached there, the safe and the unsafe variant of the selected
  spatial filter give the same prediction, and, in the stream state reached there,
  \<open>_a_decoder.read\<close> and \<open>_a_decoder.read_unsafe\<close> give the same result, then
  \<open>readSafe\<close> and \<open>readUnsafe\<close> give the same result: the same pixel bytes, the same
  filter selections, the same chaos and stream state. Nothing is asked of the two
  variants at any other memory, state, filter or pixel.
\<close>

theorem readSafe_readUnsafe_agree:
  assumes filter: "\<And>cy cu cv pixel_code s1 u s2 v s3 filter R1 cff r g b.
      chaos_get D x (io R) = (cy, cu, cv) \<Longrightarrow>
      y_decoder_next D cy (io R) = (pixel_code, s1) \<Longrightarrow> pixel_code < 256 \<Longrightarrow>
      u_decoder_next D cu s1 = (u, s2) \<Longrightarrow>
      v_decoder_next D cv s2 = (v, s3) \<Longrightarrow>
      readFilter D x y (R\<lparr>io := s3\<rparr>) = (filter, R1) \<Longrightarrow>
      cf filter = Some cff \<Longrightarrow>
      cff (ucast pixel_code, ucast u, ucast v) = (r, g, b) \<Longrightarrow>
      safe (sf filter) ((r_rgba R1)(p := r, p + 1 := g, p + 2 := b)) p x y (r_xsize R1)
        = unsafe (sf filter) ((r_rgba R1)(p := r, p + 1 := g, p + 2 := b)) p x y (r_xsize R1)"
    and alpha: "\<And>cy cu cv pixel_code s1 u s2 v s3 filter R1 cff.
      chaos_get D x (io R) = (cy, cu, cv) \<Longrightarrow>
      y_decoder_next D cy (io R) = (pixel_code, s1) \<Longrightarrow> pixel_code < 256 \<Longrightarrow>
      u_decoder_next D cu s1 = (u, s2) \<Longrightarrow>
      v_decoder_next D cv s2 = (v, s3) \<Longrightarrow>
      readFilter D x y (R\<lparr>io := s3\<rparr>) = (filter, R1) \<Longrightarrow>
      cf filter = Some cff \<Longrightarrow>
      a_decoder_read D x (io R1) = a_decoder_read_unsafe D x (io R1)"
  shows "readSafe D x y p R = readUnsafe D x y p R"
proof -
  obtain cy cu cv where c: "chaos_get D x (io R) = (cy, cu, cv)"
    by (cases "chaos_get D x (io R)") auto
  obtain pixel_code s1 where py: "y_decoder_next D cy (io R) = (pixel_code, s1)"
    by (cases "y_decoder_next D cy (io R)") auto
  show ?thesis
  proof (cases "pixel_code \<ge> 256")
    case True
    then show ?thesis
      by (simp add: readSafe_def readUnsafe_def c py)
  next
    case False
    then have lt: "pixel_code < 256" by simp
    obtain u s2 where pu: "u_decoder_next D cu s1 = (u, s2)"
      by (cases "u_decoder_next D cu s1") auto
    obtain v s3 where pv: "v_decoder_next D cv s2 = (v, s3)"
      by (cases "v_decoder_next D cv s2") auto
    obtain filter R1 where rf: "readFilter D x y (R\<lparr>io := s3\<rparr>) = (filter, R1)"
      by (cases "readFilter D x y (R\<lparr>io := s3\<rparr>)") auto
    show ?thesis
    proof (cases "cf filter")
      case None
      then show ?thesis
        using False by (simp add: readSafe_def readUnsafe_def c py pu pv rf)
    next
      case (Some cff)
      obtain r g b where rgb: "cff (ucast pixel_code, ucast u, ucast v) = (r, g, b)"
        by (cases "cff (ucast pixel_code, ucast u, ucast v)") auto
      note f = filter [OF c py lt pu pv rf Some rgb]
      note a = alpha [OF c py lt pu pv rf Some]
      show ?thesis
        using False f a by (simp add: readSafe_def readUnsafe_def c py pu pv rf Some rgb)
    qed
  qed
qed

text \<open>
  C10, an instance with variants that differ in column 0 (there the safe filter
  predicts 0 and the unsafe one reads the bytes before \<open>p\<close>, and the unsafe alpha read
  is off by one). At pixel (5, 3) of an image 8 wide they agree where the two functions
  use them, and both functions decode the bytes 10, 4, 5 and the alpha \<open>NOT 9\<close> and use
  up the stream. At pixel (0, 3) they do not agree, and the two functions decode
  different bytes.
\<close>

theorem readSafe_readUnsafe_agree_witness:
  "readSafe border_decoders 5 3 116 (border_reader [7, 1, 2, 0, 0, 9])
     = readUnsafe border_decoders 5 3 116 (border_reader [7, 1, 2, 0, 0, 9])
   \<and> (\<exists>R. readSafe border_decoders 5 3 116 (border_reader [7, 1, 2, 0, 0, 9]) = Inr R
          \<and> r_rgba R 116 = 10 \<and> r_rgba R 117 = 4 \<and> r_rgba R 118 = 5 \<and> r_rgba R 119 = NOT 9
          \<and> io R = [])
   \<and> (\<exists>R R'. readSafe border_decoders 0 3 96 (border_reader [7, 1, 2, 0, 0, 9]) = Inr R
          \<and> readUnsafe border_decoders 0 3 96 (border_reader [7, 1, 2, 0, 0, 9]) = Inr R'
          \<and> r_rgba R 96 = 7 \<and> r_rgba R' 96 = 10
          \<and> r_rgba R 99 = NOT 9 \<and> r_rgba R' 99 = NOT 10)"
proof -
  have "readSafe border_decoders 5 3 116 (border_reader [7, 1, 2, 0, 0, 9])
     = readUnsafe border_decoders 5 3 116 (border_reader [7, 1, 2, 0, 0, 9])"
    by (rule readSafe_readUnsafe_agree)
       (auto simp: border_reader_def border_filter_def border_decoders_def list_decoders_def
          readFilter_def ready_def next_sym_def next_byte_def Let_def)
  moreover have "\<exists>R. readSafe border_decoders 5 3 116 (border_reader [7, 1, 2, 0, 0, 9]) = Inr R
          \<and> r_rgba R 116 = 10 \<and> r_rgba R 117 = 4 \<and> r_rgba R 118 = 5 \<and> r_rgba R 119 = NOT 9
          \<and> io R = []"
    by (simp add: readSafe_def readFilter_def border_reader_def border_filter_def
        border_decoders_def list_decoders_def next_sym_def next_byte_def ready_def Let_def)
  moreover have "\<exists>R R'. readSafe border_decoders 0 3 96 (border_reader [7, 1, 2, 0, 0, 9]) = Inr R
          \<and> readUnsafe border_decoders 0 3 96 (border_reader [7, 1, 2, 0, 0, 9]) = Inr R'
          \<and> r_rgba R 96 = 7 \<and> r_rgba R' 96 = 10
          \<and> r_rgba R 99 = NOT 9 \<and> r_rgba R' 99 = NOT 10"
    by (simp add: readSafe_def readUnsafe_def readFilter_def border_reader_def border_filter_def
        border_decoders_def list_decoders_def next_sym_def next_byte_def ready_def Let_def)
  ultimately show ?thesis by simp
qed

text \<open>
  C3, what the code does. When the Y decoder returns an escape code (256 or more),
  \<open>readSafe\<close> has made one call, the Y read, and returns: no length and no distance
  is read, the image and the filter selections are as before, and nothing is stored in
  the chaos state.
\<close>

theorem readSafe_LZ_escape_does_nothing:
  assumes "256 \<le> fst (y_decoder_next D (fst (chaos_get D x (fst (io R)))) (fst (io R)))"
  shows "readSafe (traced D) x y p R =
           Inr (R\<lparr>io := (snd (y_decoder_next D (fst (chaos_get D x (fst (io R)))) (fst (io R))),
                          snd (io R) @ [Read_Y (fst (chaos_get D x (fst (io R))))])\<rparr>)"
  using assms
  by (cases "io R")
     (simp add: readSafe_def traced_def logged_apply Let_def split_beta)

text \<open>
  C3, an instance: the stream starts with the escape code 256; the two symbols after
  it stay unread and no pixel is written.
\<close>

theorem readSafe_LZ_escape_witness:
  "256 \<le> fst (y_decoder_next list_decoders (fst (chaos_get list_decoders 1 [256, 3, 64])) [256, 3, 64])
   \<and> readSafe (traced list_decoders) 1 0 4 (list_reader ([256, 3, 64], []))
       = Inr (list_reader ([3, 64], [Read_Y 0]))"
proof -
  have h: "256 \<le> fst (y_decoder_next list_decoders (fst (chaos_get list_decoders 1 [256, 3, 64])) [256, 3, 64])"
    by (simp add: list_decoders_def next_sym_def)
  have "256 \<le> fst (y_decoder_next list_decoders (fst (chaos_get list_decoders 1
            (fst (io (list_reader ([256, 3, 64], [])))))) (fst (io (list_reader ([256, 3, 64], [])))))"
    using h by (simp add: list_reader_def)
  from readSafe_LZ_escape_does_nothing [OF this, of 0 4]
  have "readSafe (traced list_decoders) 1 0 4 (list_reader ([256, 3, 64], []))
       = Inr (list_reader ([3, 64], [Read_Y 0]))"
    by (simp add: list_reader_def list_decoders_def next_sym_def)
  with h show ?thesis by simp
qed

section \<open>The chaos scan\<close>

subsection \<open>The scan and what it accumulates\<close>









subsection \<open>The rounds of \<open>designChaos\<close>\<close>








subsection \<open>The scan on small planes\<close>

lemma list_env_sel:
  "CHAOS_MAPS (list_env n) = (\<lambda>k s. of_nat (min s k))"
  "RESIDUAL_SCORE (list_env n) = (\<lambda>r. if r < 15 then r else 15)"
  "MAX_CHAOS_LEVELS (list_env n) = n"
  "RECURSIVE_THRESH (list_env n) = 8"
  "MF_COUNT (list_env n) = 32"
  "mono_revisitCount (list_env n) = 4096"
  "ee_new (list_env n) = []"
  "ee_init (list_env n) = []"
  "ee_addSingle (list_env n) = (\<lambda>s h. h @ [s])"
  "ee_entropy (list_env n) = (\<lambda>h codes. 8 * int (length (filter (\<lambda>c. c \<noteq> 0) codes)))"
  "ee_entropyOverall (list_env n) = uniform_entropy"
  by (simp_all add: list_env_def)

lemma plane_sel:
  "size_x (params (plane sx sy bits ds rs)) = of_nat sx"
  "size_y (params (plane sx sy bits ds rs)) = of_nat sy"
  "num_syms (params (plane sx sy bits ds rs)) = 256"
  "data (params (plane sx sy bits ds rs)) = ds"
  "mask_fn (params (plane sx sy bits ds rs)) = (\<lambda>x y. False)"
  "tile_bits_x (plane sx sy bits ds rs) = of_nat bits"
  "tile_bits_y (plane sx sy bits ds rs) = of_nat bits"
  "tile_size_x (plane sx sy bits ds rs) = of_nat (2 ^ bits)"
  "tile_size_y (plane sx sy bits ds rs) = of_nat (2 ^ bits)"
  "tiles_x (plane sx sy bits ds rs) = of_nat ((sx + 2 ^ bits - 1) div 2 ^ bits)"
  "tiles (plane sx sy bits ds rs)
     = replicate (((sx + 2 ^ bits - 1) div 2 ^ bits) * ((sy + 2 ^ bits - 1) div 2 ^ bits)) TODO_TILE"
  "residuals (plane sx sy bits ds rs) = rs"
  "filters (plane sx sy bits ds rs) = (\<lambda>f ds d x y sx. 0)"
  "normal_filter_count (plane sx sy bits ds rs) = 1"
  "filter_count (plane sx sy bits ds rs) = 1"
  "tiles_count (plane sx sy bits ds rs)
     = int (((sx + 2 ^ bits - 1) div 2 ^ bits) * ((sy + 2 ^ bits - 1) div 2 ^ bits))"
  "row_filter_entropy (plane sx sy bits ds rs) = 0"
  "filter_encoder (plane sx sy bits ds rs) = None"
  by (simp_all add: plane_def)

lemma getTile_plane_2:
  assumes "x < 4" "y < 4" "sx \<le> 4" "sy \<le> 4" "0 < sx" "0 < sy"
  shows "getTile (plane sx sy 2 ds rs) x y = TODO_TILE"
proof -
  have "(3 + sx) div 4 = 1" "(3 + sy) div 4 = 1"
    using assms by simp_all
  with assms show ?thesis
    by (simp add: getTile_def plane_sel)
qed

lemma chaos_element_plane:
  "x < 4 \<Longrightarrow> y < 4 \<Longrightarrow> sx \<le> 4 \<Longrightarrow> sy \<le> 4 \<Longrightarrow> 0 < sx \<Longrightarrow> 0 < sy \<Longrightarrow>
   chaos_element E (plane sx sy 2 ds rs) C add y x (ch, r, acc) =
     (ch[x + 1 := rs ! r], r + 1,
      add (unat (C (unat (RESIDUAL_SCORE E (ch ! 0)) + unat (RESIDUAL_SCORE E (ch ! 1))))) (rs ! r) acc)"
  by (simp add: chaos_element_def getTile_plane_2 plane_sel MASK_TILE_def TODO_TILE_def Let_def)


lemma chaos_scan_3x2:
  "chaos_scan E (plane 3 2 2 ds [r00, r10, r20, r01, r11, r21]) C trace_bin [] =
     [(unat (C (unat (RESIDUAL_SCORE E 0) + unat (RESIDUAL_SCORE E 0))), r00),
      (unat (C (unat (RESIDUAL_SCORE E 0) + unat (RESIDUAL_SCORE E r00))), r10),
      (unat (C (unat (RESIDUAL_SCORE E 0) + unat (RESIDUAL_SCORE E r00))), r20),
      (unat (C (unat (RESIDUAL_SCORE E 0) + unat (RESIDUAL_SCORE E r00))), r01),
      (unat (C (unat (RESIDUAL_SCORE E 0) + unat (RESIDUAL_SCORE E r01))), r11),
      (unat (C (unat (RESIDUAL_SCORE E 0) + unat (RESIDUAL_SCORE E r01))), r21)]"
  by (simp add: chaos_scan_def chaos_row_def chaos_element_plane trace_bin_def plane_sel
      upt_rec [of _ 2] upt_rec [of _ 3] upt_rec [of _ "Suc (Suc 0)"])

text \<open>
  C2, the code at a plane of three columns and two rows, nothing masked, for any two
  tables and any residuals. The claim asks for the bin
  \<open>C (score r10 + score 0)\<close> at (2, 0), \<open>C (score r01 + score r10)\<close> at (1, 1) and
  \<open>C (score r11 + score r20)\<close> at (2, 1). The code reads \<open>last[-1]\<close> and \<open>last[0]\<close>
  at every column: the first is 0, the second is the residual stored last for column
  0, so that the bin at (2, 0) is \<open>C (score 0 + score r00)\<close> and the bins at (1, 1) and
  (2, 1) are \<open>C (score 0 + score r01)\<close>.
\<close>

theorem chaos_bin_reads_fixed_window:
  "chaos_scan E (plane 3 2 2 ds [r00, r10, r20, r01, r11, r21]) C trace_bin [] =
     [(unat (C (unat (RESIDUAL_SCORE E 0) + unat (RESIDUAL_SCORE E 0))), r00),
      (unat (C (unat (RESIDUAL_SCORE E 0) + unat (RESIDUAL_SCORE E r00))), r10),
      (unat (C (unat (RESIDUAL_SCORE E 0) + unat (RESIDUAL_SCORE E r00))), r20),
      (unat (C (unat (RESIDUAL_SCORE E 0) + unat (RESIDUAL_SCORE E r00))), r01),
      (unat (C (unat (RESIDUAL_SCORE E 0) + unat (RESIDUAL_SCORE E r01))), r11),
      (unat (C (unat (RESIDUAL_SCORE E 0) + unat (RESIDUAL_SCORE E r01))), r21)]"
  by (rule chaos_scan_3x2)

subsection \<open>The choice of the number of chaos levels\<close>








section \<open>\<open>designTiles\<close>\<close>

text \<open>
  In the first pass (\<open>passes = 0\<close>) no piece of the loop body takes the \<open>return\<close>, and
  \<open>passes\<close> is 0 in every pass.
\<close>

lemma designTiles_tile_first_pass:
  "designTiles_tile E w 0 tx ty x y L \<noteq> Inr (Return L')"
  by (auto simp: designTiles_tile_def fbind_def Let_def
      split: sum.splits step.splits prod.splits if_splits)

lemma designTiles_columns_first_pass_aux:
  "designTiles_columns E w passes y ty x tx L = Some r \<Longrightarrow>
     passes = 0 \<longrightarrow> (\<forall>L'. r \<noteq> Inr (Return L'))"
  apply (erule designTiles_columns.raw_induct
      [where xa = "(((((((E, w), passes), y), ty), x), tx), L)" and
             P = "\<lambda>E w passes y ty x tx L r. passes = 0 \<longrightarrow> (\<forall>L'. r \<noteq> Inr (Return L'))",
       simplified, rotated])
  apply (auto split: if_splits sum.splits step.splits simp: designTiles_tile_first_pass)
  done

lemma designTiles_columns_first_pass:
  "designTiles_columns E w 0 y ty x tx L \<noteq> Some (Inr (Return L'))"
  using designTiles_columns_first_pass_aux [of E w 0 y ty x tx L "Inr (Return L')"] by auto

lemma designTiles_rows_first_pass_aux:
  "designTiles_rows E w passes y ty L = Some r \<Longrightarrow>
     passes = 0 \<longrightarrow> (\<forall>L'. r \<noteq> Inr (Return L'))"
  apply (erule designTiles_rows.raw_induct [rotated])
  apply (auto split: if_splits sum.splits step.splits option.splits simp: designTiles_columns_first_pass)
  done

lemma designTiles_rows_first_pass:
  "designTiles_rows E w 0 y ty L \<noteq> Some (Inr (Return L'))"
  using designTiles_rows_first_pass_aux [of E w 0 y ty L "Inr (Return L')"] by auto

lemma designTiles_passes_aux:
  "designTiles_passes E w passes L = Some r \<Longrightarrow> passes = 0 \<longrightarrow> (\<forall>L'. r \<noteq> Inr L')"
  apply (erule designTiles_passes.raw_induct [rotated])
  apply (auto split: if_splits sum.splits step.splits option.splits
      simp: designTiles_rows_first_pass MAX_PASSES_def)
  done

lemma designTiles_passes_no_return:
  "designTiles_passes E w 0 L \<noteq> Some (Inr L')"
  using designTiles_passes_aux [of E w 0 L "Inr L'"] by auto

lemma designTiles_no_return:
  "designTiles E w \<noteq> Some (Inr w')"
  by (auto simp: designTiles_def designTiles_passes_no_return
      split: option.splits sum.splits)

text \<open>
  On a plane of one element with one tile the first pass completes; the second pass
  starts with \<open>p\<close> one past the end of \<open>_tiles\<close> and reads \<open>*p\<close>.
\<close>

lemma designTiles_one_element:
  "designTiles (list_env 8) (plane 1 1 0 [5] [5]) = Some (Inl OutOfBounds)"
  by (simp add: designTiles_def designTiles_passes.simps designTiles_rows.simps
      designTiles_columns.simps designTiles_tile_def tile_codes_def mono_residual_def
      neighbors_def score_filter_def tile_at_def data_at_def fbind_def
      list_env_def plane_def MAX_PASSES_def TODO_TILE_def MASK_TILE_def NEIGHBOR_REWARD_def Let_def)

text \<open>
  C4, what the code does: \<open>designTiles\<close> never returns. On every engine and with
  every estimator, filter set and revisit budget it either runs for ever or leaves
  defined behaviour: the loop \<open>while (passes < MAX_PASSES)\<close> has no statement that
  changes \<open>passes\<close>, and its only exit, the \<open>return\<close> under \<open>passes > 0\<close>, is never
  reached.
\<close>

theorem designTiles_never_returns:
  "designTiles E w \<noteq> Some (Inr w')"
  by (rule designTiles_no_return)

section \<open>\<open>process\<close>\<close>

lemma rbind_returns:
  "rbind m k = Some (Inr v) \<longleftrightarrow> (\<exists>u. m = Some (Inr u) \<and> k u = Some (Inr v))"
  by (auto simp: rbind_def split: option.splits sum.splits)

lemma rbind_no_return:
  "(\<And>u. m \<noteq> Some (Inr u)) \<Longrightarrow> rbind m k = rbind m k'"
  by (auto simp: rbind_def split: option.splits sum.splits)

lemma process_stages_designTiles:
  assumes "do_designTiles S = designTiles E"
  shows "process_stages S w \<noteq> Some (Inr w')"
proof
  assume "process_stages S w = Some (Inr w')"
  then obtain u v where "do_designTiles S u = Some (Inr v)"
    unfolding process_stages_def rbind_returns by blast
  with assms designTiles_no_return [of E u v] show False by simp
qed

lemma process_bit_count_designTiles:
  assumes "do_designTiles S = designTiles E"
  shows "(case init_tiles bits w of Inl f \<Rightarrow> Some (Inl f) | Inr w1 \<Rightarrow> process_stages S w1)
           \<noteq> Some (Inr w')"
  using process_stages_designTiles [OF assms] by (auto split: sum.splits)

lemma process_bits_first:
  assumes "do_designTiles S = designTiles E"
  shows "process_bits S (bits # rest) w = process_bits S [bits] w"
    and "process_bits S (bits # rest) w \<noteq> Some (Inr w')"
proof -
  let ?m = "case init_tiles bits w of Inl f \<Rightarrow> Some (Inl f) | Inr w1 \<Rightarrow> process_stages S w1"
  have n: "\<And>u. ?m \<noteq> Some (Inr u)"
    by (rule process_bit_count_designTiles [OF assms])
  show "process_bits S (bits # rest) w = process_bits S [bits] w"
    using rbind_no_return [of ?m "process_bits S rest" "process_bits S []", OF n] by simp
  show "process_bits S (bits # rest) w \<noteq> Some (Inr w')"
    using n by (simp add: rbind_returns)
qed

lemma process_no_value: "process S w P \<noteq> Some (Inr r)"
  by (simp add: process_def Let_def rbind_returns)

lemma one_element_sel:
  "min_bits (one_element lo hi) = lo" "max_bits (one_element lo hi) = hi"
  "size_x (one_element lo hi) = 1" "size_y (one_element lo hi) = 1"
  "data (one_element lo hi) = [5]" "num_syms (one_element lo hi) = 256"
  "mask_fn (one_element lo hi) = (\<lambda>x y. False)"
  by (simp_all add: one_element_def)

lemma upto_0_1: "[0..1] = [0, 1 :: int]" "[0..0] = [0 :: int]"
  by (simp_all add: upto_rec1)

text \<open>
  The same on any engine of one tile over a plane of one element, as \<open>process\<close>
  sets it up for the bit count 0.
\<close>

lemma designTiles_one_tile:
  assumes "tiles w = [0]" "tiles_x w = 1" "tile_size_x w = 1" "tile_size_y w = 1"
    "size_x (params w) = 1" "size_y (params w) = 1" "num_syms (params w) = n" "n \<noteq> 0"
    "data (params w) = [v]" "mask_fn (params w) 0 0 = False"
    "filter_count w = 1" "normal_filter_count w = 1"
    "filters w = (\<lambda>f ds d x y sx. 0)" "filter_indices w = (\<lambda>f. int f)"
  shows "designTiles (list_env 8) w = Some (Inl OutOfBounds)"
  using assms
  by (simp add: designTiles_def designTiles_passes.simps designTiles_rows.simps
      designTiles_columns.simps designTiles_tile_def tile_codes_def mono_residual_def
      neighbors_def score_filter_def tile_at_def data_at_def fbind_def
      list_env_sel MAX_PASSES_def MASK_TILE_def NEIGHBOR_REWARD_def Let_def unat_gt_0)

lemma stub_stages_first_bit_count:
  "(case init_tiles 0 ((cleanup new_engine)\<lparr>params := one_element lo hi, filter_encoder := None\<rparr>) of
      Inl f \<Rightarrow> Some (Inl f)
    | Inr w1 \<Rightarrow> process_stages stub_stages w1) = Some (Inl OutOfBounds)"
  by (simp add: init_tiles_def Let_def one_element_sel process_stages_def stub_stages_def rbind_def
      cleanup_def new_engine_def designTiles_one_tile [where n = 256 and v = 5])

lemma process_stub_stages:
  "process stub_stages new_engine (one_element 0 1) = Some (Inl OutOfBounds)"
  unfolding process_def Let_def one_element_sel upto_0_1 process_bits.simps
    stub_stages_first_bit_count
  by (simp add: rbind_def)

text \<open>
  C5, what the code does. With the \<open>designTiles\<close> of the source as the fifth of the
  nine functions, and whatever the other eight do, the loop over the bit counts never
  gets past the first: the run for \<open>min_bits .. max_bits\<close> is the run for \<open>min_bits\<close>
  alone, and that run does not complete. No second bit count is tried, no entropy is
  compared, and \<open>process\<close> returns no value.
\<close>

theorem process_stops_in_first_bit_count:
  assumes "min_bits P \<le> max_bits P" and "do_designTiles S = designTiles E"
  shows "process_bits S [min_bits P..max_bits P] w0 = process_bits S [min_bits P] w0
       \<and> process_bits S [min_bits P] w0 \<noteq> Some (Inr w')
       \<and> process S w P \<noteq> Some (Inr r)"
proof -
  have l: "[min_bits P..max_bits P] = min_bits P # [min_bits P + 1..max_bits P]"
    using assms(1) by (simp add: upto_rec1)
  show ?thesis
    unfolding l
    using process_bits_first(1) [OF assms(2), of "min_bits P" "[min_bits P + 1..max_bits P]" w0]
      process_bits_first(2) [OF assms(2), of "min_bits P" "[]" w0 w']
      process_no_value [of S w P r]
    by simp
qed

text \<open>
  C5, an instance: a plane of one element with the bit counts 0 and 1 to try. The run
  ends in the first bit count, in the second pass of \<open>designTiles\<close>, with a read
  behind the end of \<open>_tiles\<close>.
\<close>

theorem process_stops_in_first_bit_count_witness:
  "min_bits (one_element 0 1) \<le> max_bits (one_element 0 1)
   \<and> do_designTiles stub_stages = designTiles (list_env 8)
   \<and> process_bits stub_stages [0, 1] ((cleanup new_engine)\<lparr>params := one_element 0 1, filter_encoder := None\<rparr>)
       = process_bits stub_stages [0] ((cleanup new_engine)\<lparr>params := one_element 0 1, filter_encoder := None\<rparr>)
   \<and> process stub_stages new_engine (one_element 0 1) = Some (Inl OutOfBounds)"
proof -
  have h: "min_bits (one_element 0 1) \<le> max_bits (one_element 0 1)"
    by (simp add: one_element_sel)
  have d: "do_designTiles stub_stages = designTiles (list_env 8)"
    by (simp add: stub_stages_def)
  from process_stops_in_first_bit_count [OF h d,
      of "(cleanup new_engine)\<lparr>params := one_element 0 1, filter_encoder := None\<rparr>"]
  have "process_bits stub_stages [0, 1] ((cleanup new_engine)\<lparr>params := one_element 0 1, filter_encoder := None\<rparr>)
       = process_bits stub_stages [0] ((cleanup new_engine)\<lparr>params := one_element 0 1, filter_encoder := None\<rparr>)"
    unfolding one_element_sel upto_0_1 by blast
  with h d process_stub_stages show ?thesis by blast
qed

section \<open>\<open>recurseCompress\<close>\<close>

lemma one_tile_threshold:
  "RECURSIVE_THRESH low_threshold \<le> tiles_count one_tile"
  by (simp add: low_threshold_def one_tile_def)

lemma one_tile_child:
  "child_params one_tile = (one_element 0 0)\<lparr>data := [0], num_syms := 1, mask_fn := IsMasked one_tile\<rparr>"
  by (simp add: child_params_def one_tile_def new_engine_def one_element_def)

lemma IsMasked_one_tile: "IsMasked one_tile 0 0 = False"
  by (simp add: IsMasked_def one_tile_def MASK_TILE_def)

lemma one_tile_child_first_bit_count:
  "(case init_tiles 0 ((cleanup new_engine)\<lparr>params := child_params one_tile, filter_encoder := None\<rparr>) of
      Inl f \<Rightarrow> Some (Inl f)
    | Inr w1 \<Rightarrow> process_stages stub_stages w1) = Some (Inl OutOfBounds)"
  by (simp add: init_tiles_def Let_def one_tile_child one_element_sel process_stages_def
      stub_stages_def rbind_def cleanup_def new_engine_def IsMasked_one_tile
      designTiles_one_tile [where n = 1 and v = 0])

lemma process_one_tile_child:
  "process stub_stages new_engine (child_params one_tile) = Some (Inl OutOfBounds)"
proof -
  have b: "min_bits (child_params one_tile) = 0" "max_bits (child_params one_tile) = 0"
    by (simp_all add: one_tile_child one_element_sel)
  show ?thesis
    unfolding process_def Let_def b upto_0_1 process_bits.simps one_tile_child_first_bit_count
    by (simp add: rbind_def)
qed

lemma recurseCompress_one_tile:
  "recurseCompress stub_stages new_engine low_threshold one_tile = Some (Inl OutOfBounds)"
  using one_tile_threshold
  by (simp add: recurseCompress_def process_one_tile_child rbind_def)

text \<open>
  C7, what the code does. At or above the threshold \<open>recurseCompress\<close> calls
  \<open>process\<close> on the new child, and that call has no value to give, whatever the
  nine functions do on the child: \<open>recurse_entropy\<close> is never compared with the row
  filters' entropy, and the child is neither kept nor discarded.
\<close>

theorem recurseCompress_child_never_returns:
  assumes "RECURSIVE_THRESH E \<le> tiles_count w"
  shows "recurseCompress child_stages new_MonoWriter E w \<noteq> Some (Inr w')"
  using assms process_no_value [of child_stages new_MonoWriter "child_params w"]
  by (auto simp: recurseCompress_def rbind_returns)

text \<open>
  C7, an instance: a grid of one tile with the threshold 1. The child's \<open>process\<close>
  ends in its \<open>designTiles\<close>, and \<open>recurseCompress\<close> with it.
\<close>

theorem recurseCompress_child_never_returns_witness:
  "RECURSIVE_THRESH low_threshold \<le> tiles_count one_tile
   \<and> recurseCompress stub_stages new_engine low_threshold one_tile = Some (Inl OutOfBounds)
   \<and> (\<forall>w'. recurseCompress stub_stages new_engine low_threshold one_tile \<noteq> Some (Inr w'))"
proof -
  have h: "RECURSIVE_THRESH low_threshold \<le> tiles_count one_tile"
    by (rule one_tile_threshold)
  from recurseCompress_child_never_returns [OF h] h recurseCompress_one_tile
  show ?thesis by blast
qed

section \<open>The match finder\<close>

lemma extend_match_bound:
  "extend_match I c ii k len = Some n \<Longrightarrow> n \<le> len + k"
proof (induction k arbitrary: len)
  case 0
  then show ?case by simp
next
  case (Suc k)
  show ?case
  proof (cases "extend_match I c ii k (len + 1) = Some n")
    case True
    from Suc.IH [OF True] show ?thesis by simp
  next
    case False
    with Suc.prems show ?thesis by (auto split: if_splits)
  qed
qed

lemma extend_match_unmasked:
  "extend_match I c ii k len = Some n \<Longrightarrow> len \<le> j \<Longrightarrow> j < n \<Longrightarrow> \<not> masked_at I (c + j)"
proof (induction k arbitrary: len)
  case 0
  then show ?case by simp
next
  case (Suc k)
  show ?case
  proof (cases "j = len")
    case True
    with Suc.prems show ?thesis by (auto split: if_splits)
  next
    case False
    with Suc.prems have "Suc len \<le> j" by simp
    with Suc.prems Suc.IH [of "len + 1"] show ?thesis
      by (auto split: if_splits)
  qed
qed

lemma best_candidate_sound:
  assumes "fold (consider_candidate I ii) cs best = Some (d, len)"
      and "best = None \<or> (\<exists>c. best = Some (ii - c, len') \<and> c < ii \<and> ii - c \<le> WIN_SIZE
              \<and> match_length I c ii = Some len' \<and> RGBA_MIN_MATCH \<le> len')"
  shows "\<exists>c. d = ii - c \<and> c < ii \<and> ii - c \<le> WIN_SIZE
              \<and> match_length I c ii = Some len \<and> RGBA_MIN_MATCH \<le> len"
  using assms
proof (induction cs arbitrary: best len')
  case Nil
  then show ?case by auto
next
  case (Cons c cs)
  let ?b = "consider_candidate I ii c best"
  have "?b = None \<or> (\<exists>l c'. ?b = Some (ii - c', l) \<and> c' < ii \<and> ii - c' \<le> WIN_SIZE
              \<and> match_length I c' ii = Some l \<and> RGBA_MIN_MATCH \<le> l)"
    using Cons.prems(2)
    by (auto simp: consider_candidate_def split: if_splits option.splits prod.splits)
  then show ?case
  proof
    assume "?b = None"
    with Cons.IH [of ?b] Cons.prems(1) show ?thesis by simp
  next
    assume "\<exists>l c'. ?b = Some (ii - c', l) \<and> c' < ii \<and> ii - c' \<le> WIN_SIZE
              \<and> match_length I c' ii = Some l \<and> RGBA_MIN_MATCH \<le> l"
    then obtain l c' where "?b = Some (ii - c', l) \<and> c' < ii \<and> ii - c' \<le> WIN_SIZE
              \<and> match_length I c' ii = Some l \<and> RGBA_MIN_MATCH \<le> l" by blast
    with Cons.IH [of ?b l] Cons.prems(1) show ?thesis by auto
  qed
qed

lemma match_length_sound:
  assumes "match_length I c ii = Some len" "c < ii" "ii - c \<le> WIN_SIZE" "RGBA_MIN_MATCH \<le> len"
  shows "lz_sound I \<lparr> offset = ii, distance = ii - c, length_lz = len \<rparr>"
proof -
  have "len \<le> MAX_MATCH"
    using extend_match_bound [of I c ii MAX_MATCH 0 len] assms(1) by (simp add: match_length_def)
  moreover have "\<not> masked_at I (c + k)" if "k < len" for k
    using extend_match_unmasked [of I c ii MAX_MATCH 0 len k] assms(1) that
    by (simp add: match_length_def)
  ultimately show ?thesis
    using assms by (simp add: lz_sound_def list_all_iff)
qed

lemma best_match_sound:
  assumes "best_match depth I ii s h = Some (d, len)"
  shows "lz_sound I \<lparr> offset = ii, distance = d, length_lz = len \<rparr>"
proof -
  from assms have "fold (consider_candidate I ii) (chain_walk (chain s) depth (table s h)) None
        = Some (d, len)"
    by (simp add: best_match_def split: if_splits)
  from best_candidate_sound [OF this] obtain c where
    "d = ii - c" "c < ii" "ii - c \<le> WIN_SIZE" "match_length I c ii = Some len" "RGBA_MIN_MATCH \<le> len"
    by auto
  with match_length_sound [of I c ii len] show ?thesis by simp
qed

lemma scan_pixel_sound:
  assumes "list_all (lz_sound I) (matches s)"
  shows "list_all (lz_sound I) (matches (scan_pixel depth I ii s))"
  using assms
  by (auto simp: scan_pixel_def Let_def best_match_sound split: option.splits)

lemma scan_fold_sound:
  "list_all (lz_sound I) (matches s) \<Longrightarrow>
     list_all (lz_sound I) (matches (fold (scan_pixel depth I) is s))"
  by (induction "is" arbitrary: s) (simp_all add: scan_pixel_sound)

text \<open>The finder on two equal rows: the second row is one match at distance 4.\<close>

lemma hashes_two_rows:
  "hash_rgba 1 2 = 238700" "hash_rgba 2 3 = 11847" "hash_rgba 3 4 = 47137" "hash_rgba 4 1 = 55217"
  by (simp_all add: hash_rgba_def RGBA_HASH_BITS_def RGBA_HASH_MULT_def)

lemma two_rows_sel:
  "rgba two_rows = [1, 2, 3, 4, 1, 2, 3, 4]" "pixels two_rows = 8"
  "masked_at two_rows i = False"
  by (simp_all add: two_rows_def pixels_def masked_at_def)

lemma extend_match_numeral:
  "extend_match I c ii (numeral n) len =
     (if ii + len < pixels I \<and> rgba I ! (c + len) = rgba I ! (ii + len) then
        (if masked_at I (c + len) \<or> masked_at I (ii + len) then None
         else extend_match I c ii (pred_numeral n) (len + 1))
      else Some len)"
  by (simp add: numeral_eq_Suc)

lemma two_rows_match: "match_length two_rows 0 4 = Some 4"
  by (simp add: match_length_def MAX_MATCH_def two_rows_sel extend_match_numeral)

lemma chain_walk_numeral:
  "chain_walk ch (numeral n) None = []"
  "chain_walk ch (numeral n) (Some c) = c # chain_walk ch (pred_numeral n) (ch c)"
  by (simp_all add: numeral_eq_Suc)

lemma offsets_below_8: "[0..<8] = [0, 1, 2, 3, 4, 5, 6, 7]"
  by (simp add: upt_rec [of _ 8])

lemma two_rows_saving: "0 < match_saving 4 4"
  by (simp add: match_saving_def RGBA_SAVED_PIXEL_BITS_def RGBA_LEN_PREFIX_COST_def
      RGBA_DIST_PREFIX_COST_def)

lemma two_rows_candidate: "consider_candidate two_rows 4 0 None = Some (4, 4)"
  by (simp add: consider_candidate_def two_rows_match two_rows_saving WIN_SIZE_def RGBA_MIN_MATCH_def)

lemma scanRGBA_two_rows:
  "scanRGBA 8 two_rows = [\<lparr> offset = 4, distance = 4, length_lz = 4 \<rparr>]"
  by (simp add: scanRGBA_def scan_pixel_def best_match_def two_rows_candidate
      chain_walk_numeral hashes_two_rows two_rows_sel offsets_below_8 Let_def)

text \<open>
  C9. Every match the finder emits, for any image, any mask and any depth of the
  chain walk, has a distance of at least 1, a length from \<open>RGBA_MIN_MATCH = 2\<close> to
  \<open>MAX_MATCH = 4096\<close>, a distance no larger than its offset and no larger than the
  window of \<open>2^20\<close> pixels, and no masked pixel among the pixels it copies from.
\<close>

theorem scanRGBA_sound:
  "list_all (lz_sound I) (scanRGBA depth I)"
  unfolding scanRGBA_def by (rule scan_fold_sound) simp

end
